theory Spec2Isabelle
  imports Main "HOL-Library.Word" "HOL-Library.Multiset"
begin

unbundle bit_operations_syntax

section \<open>Strings\<close>

text \<open>
  A Go \<^verbatim>\<open>string\<close> and a \<^verbatim>\<open>[]byte\<close> are both sequences of bytes; they are modelled
  as \<^typ>\<open>string\<close>, a list of 8-bit characters. \<^verbatim>\<open>fmt.Sprintf\<close> with the verbs
  \<^verbatim>\<open>%v\<close> and \<^verbatim>\<open>%s\<close> on strings and byte slices is concatenation with the literal
  text of the format.
\<close>

text \<open>\<^verbatim>\<open>strings.Join(elems, sep)\<close>.\<close>

fun strings_Join :: "string list \<Rightarrow> string \<Rightarrow> string" where
  "strings_Join [] sep = []"
| "strings_Join [x] sep = x"
| "strings_Join (x # y # ys) sep = x @ sep @ strings_Join (y # ys) sep"

text \<open>\<^verbatim>\<open>strings.HasPrefix(s, p)\<close> and \<^verbatim>\<open>strings.Contains(s, substr)\<close>.\<close>

fun strings_HasPrefix :: "string \<Rightarrow> string \<Rightarrow> bool" where
  "strings_HasPrefix s [] = True"
| "strings_HasPrefix [] (p # ps) = False"
| "strings_HasPrefix (c # cs) (p # ps) = (c = p \<and> strings_HasPrefix cs ps)"

fun strings_Contains :: "string \<Rightarrow> string \<Rightarrow> bool" where
  "strings_Contains [] substr = (substr = [])"
| "strings_Contains (c # cs) substr =
     (strings_HasPrefix (c # cs) substr \<or> strings_Contains cs substr)"

section \<open>SHA-1 and hexadecimal encoding\<close>

text \<open>
  \<^verbatim>\<open>crypto/sha1\<close> (\<^verbatim>\<open>sha1.Sum\<close>) after FIPS 180-4, on 32-bit words, and
  \<^verbatim>\<open>hex.EncodeToString\<close>. \<^verbatim>\<open>bytes_of\<close> reads a string as its bytes.
\<close>

type_synonym byte = "8 word"
type_synonym uint32 = "32 word"

definition RotateLeft32 :: "uint32 \<Rightarrow> nat \<Rightarrow> uint32" where
  "RotateLeft32 x k = push_bit k x OR drop_bit (32 - k) x"

definition sha1_init :: "uint32 \<times> uint32 \<times> uint32 \<times> uint32 \<times> uint32" where
  "sha1_init = (0x67452301, 0xEFCDAB89, 0x98BADCFE, 0x10325476, 0xC3D2E1F0)"

fun be_uint32 :: "byte list \<Rightarrow> uint32" where
  "be_uint32 [b0, b1, b2, b3] =
     (push_bit 24 (ucast b0) OR push_bit 16 (ucast b1) OR push_bit 8 (ucast b2) OR ucast b3)"
| "be_uint32 _ = 0"

fun sha1_words :: "byte list \<Rightarrow> uint32 list" where
  "sha1_words (b0 # b1 # b2 # b3 # bs) = be_uint32 [b0, b1, b2, b3] # sha1_words bs"
| "sha1_words _ = []"

text \<open>
  The message schedule. The list holds the words computed so far, latest first, so that
  \<open>w[i-3]\<close>, \<open>w[i-8]\<close>, \<open>w[i-14]\<close> and \<open>w[i-16]\<close> are at positions 2, 7, 13 and 15.
\<close>
fun sha1_schedule :: "nat \<Rightarrow> uint32 list \<Rightarrow> uint32 list" where
  "sha1_schedule 0 ws = ws"
| "sha1_schedule (Suc n) ws =
     sha1_schedule n (RotateLeft32 (ws ! 2 XOR ws ! 7 XOR ws ! 13 XOR ws ! 15) 1 # ws)"

definition sha1_f :: "nat \<Rightarrow> uint32 \<Rightarrow> uint32 \<Rightarrow> uint32 \<Rightarrow> uint32" where
  "sha1_f i b c d =
     (if i < 20 then (b AND c) OR (NOT b AND d)
      else if i < 40 then b XOR c XOR d
      else if i < 60 then ((b OR c) AND d) OR (b AND c)
      else b XOR c XOR d)"

definition sha1_K :: "nat \<Rightarrow> uint32" where
  "sha1_K i = (if i < 20 then 0x5A827999 else if i < 40 then 0x6ED9EBA1
               else if i < 60 then 0x8F1BBCDC else 0xCA62C1D6)"

fun sha1_rounds :: "nat \<Rightarrow> uint32 list \<Rightarrow> uint32 \<times> uint32 \<times> uint32 \<times> uint32 \<times> uint32
    \<Rightarrow> uint32 \<times> uint32 \<times> uint32 \<times> uint32 \<times> uint32" where
  "sha1_rounds i [] s = s"
| "sha1_rounds i (w # ws) (a, b, c, d, e) =
     sha1_rounds (Suc i) ws
       (RotateLeft32 a 5 + sha1_f i b c d + e + w + sha1_K i, a, RotateLeft32 b 30, c, d)"

definition sha1_block :: "uint32 \<times> uint32 \<times> uint32 \<times> uint32 \<times> uint32 \<Rightarrow> uint32 list
    \<Rightarrow> uint32 \<times> uint32 \<times> uint32 \<times> uint32 \<times> uint32" where
  "sha1_block h ws =
     (case h of (h0, h1, h2, h3, h4) \<Rightarrow>
        (case sha1_rounds 0 (rev (sha1_schedule 64 (rev ws))) h of
           (a, b, c, d, e) \<Rightarrow> (h0 + a, h1 + b, h2 + c, h3 + d, h4 + e)))"

fun sha1_blocks :: "nat \<Rightarrow> uint32 \<times> uint32 \<times> uint32 \<times> uint32 \<times> uint32 \<Rightarrow> uint32 list
    \<Rightarrow> uint32 \<times> uint32 \<times> uint32 \<times> uint32 \<times> uint32" where
  "sha1_blocks 0 h ws = h"
| "sha1_blocks (Suc n) h ws = sha1_blocks n (sha1_block h (take 16 ws)) (drop 16 ws)"

definition be_bytes64 :: "64 word \<Rightarrow> byte list" where
  "be_bytes64 n = map (\<lambda>i. ucast (drop_bit (8 * (7 - i)) n)) [0..<8]"

definition sha1_pad :: "byte list \<Rightarrow> byte list" where
  "sha1_pad msg =
     msg @ [0x80] @ replicate ((119 - length msg mod 64) mod 64) 0 @ be_bytes64 (8 * of_nat (length msg))"

definition be_bytes32 :: "uint32 \<Rightarrow> byte list" where
  "be_bytes32 w = [ucast (drop_bit 24 w), ucast (drop_bit 16 w), ucast (drop_bit 8 w), ucast w]"

definition sha1_Sum :: "byte list \<Rightarrow> byte list" where
  "sha1_Sum msg =
     (let p = sha1_pad msg in
      case sha1_blocks (length p div 64) sha1_init (sha1_words p) of
        (h0, h1, h2, h3, h4) \<Rightarrow> concat (map be_bytes32 [h0, h1, h2, h3, h4]))"

definition hextable :: string where "hextable = ''0123456789abcdef''"

definition hex_EncodeToString :: "byte list \<Rightarrow> string" where
  "hex_EncodeToString src = concat (map (\<lambda>v. [hextable ! (unat v div 16), hextable ! (unat v mod 16)]) src)"

definition bytes_of :: "string \<Rightarrow> byte list" where
  "bytes_of s = map (\<lambda>c. of_nat (of_char c)) s"

section \<open>The file system\<close>

text \<open>
  The part of the operating system that \<^verbatim>\<open>pkg/utils/utils.go\<close> touches. A state holds
  the regular files with their content, the directories, and a log of every
  \<^verbatim>\<open>WriteString\<close> that reached a file. What the program cannot decide (a path the
  process may not look at, a directory that cannot be made, a file that cannot be opened
  or written) is part of the state as well, so that every error return of the source is a
  branch of the model.
\<close>

record filesystem =
  files :: "string \<rightharpoonup> string"
  dirs :: "string set"
  writes :: "(string \<times> string) list"
  stat_err :: "string \<Rightarrow> string option"
  mkdir_err :: "string \<Rightarrow> string option"
  open_err :: "string \<Rightarrow> string option"
  write_err :: "string \<Rightarrow> string option"

datatype stat_result = StatOk | ErrNotExist | ErrOther string

text \<open>\<^verbatim>\<open>os.Stat(name)\<close>, reduced to the error it returns.\<close>

definition os_Stat :: "filesystem \<Rightarrow> string \<Rightarrow> stat_result" where
  "os_Stat fs name =
     (case stat_err fs name of
        Some e \<Rightarrow> ErrOther e
      | None \<Rightarrow> if files fs name \<noteq> None \<or> name \<in> dirs fs then StatOk else ErrNotExist)"

text \<open>\<^verbatim>\<open>os.IsNotExist(err)\<close> on the error of \<^verbatim>\<open>os.Stat\<close>.\<close>

fun os_IsNotExist :: "stat_result \<Rightarrow> bool" where
  "os_IsNotExist ErrNotExist = True"
| "os_IsNotExist _ = False"

text \<open>
  \<^verbatim>\<open>os.MkdirAll(path, perm)\<close>: the directory exists afterwards unless the call fails;
  calling it on a directory that exists changes nothing.
\<close>

definition os_MkdirAll :: "filesystem \<Rightarrow> string \<Rightarrow> filesystem \<times> string option" where
  "os_MkdirAll fs path =
     (case mkdir_err fs path of
        Some e \<Rightarrow> (fs, Some e)
      | None \<Rightarrow> (fs\<lparr>dirs := insert path (dirs fs)\<rparr>, None))"

text \<open>
  \<^verbatim>\<open>func FileExists(name string) bool\<close>:
  \<^verbatim>\<open>_, err := os.Stat(name); return !os.IsNotExist(err)\<close>.
\<close>

definition FileExists :: "filesystem \<Rightarrow> string \<Rightarrow> bool" where
  "FileExists fs name = (\<not> os_IsNotExist (os_Stat fs name))"

text \<open>
  \<^verbatim>\<open>func AppendToFile(data string, filePath string) error\<close>. The file is opened with
  \<^verbatim>\<open>O_APPEND|O_CREATE|O_WRONLY\<close>: a missing file is created empty, and
  \<^verbatim>\<open>WriteString(data + "\n")\<close> adds to the end of what the file holds. An empty
  \<^verbatim>\<open>filePath\<close> skips everything and returns \<^verbatim>\<open>nil\<close>.
\<close>

definition AppendToFile :: "filesystem \<Rightarrow> string \<Rightarrow> string \<Rightarrow> filesystem \<times> string option" where
  "AppendToFile fs data filePath =
     (if filePath \<noteq> [] then
        (case open_err fs filePath of
           Some e \<Rightarrow> (fs, Some e)
         | None \<Rightarrow>
             let old = (case files fs filePath of None \<Rightarrow> [] | Some c \<Rightarrow> c);
                 opened = fs\<lparr>files := (files fs)(filePath \<mapsto> old)\<rparr>
             in (case write_err fs filePath of
                   Some e \<Rightarrow> (opened, Some e)
                 | None \<Rightarrow>
                     (opened\<lparr>files := (files opened)(filePath \<mapsto> old @ data @ ''\<newline>''),
                             writes := writes opened @ [(filePath, data @ ''\<newline>'')]\<rparr>,
                      None)))
      else (fs, None))"

text \<open>How a call ends: it returns, or \<^verbatim>\<open>log.Fatalf\<close> stops the process.\<close>

datatype outcome = Returned | Fatal string

text \<open>
  \<^verbatim>\<open>func WriteUniqueFile(checksum, body, outputDir, httpDump, ext string)\<close>. The error
  of \<^verbatim>\<open>os.MkdirAll\<close> is dropped by the source. \<^verbatim>\<open>constructed\<close> starts as the empty
  string and is set by two independent \<^verbatim>\<open>if\<close>s.
\<close>

definition filePath_of :: "string \<Rightarrow> string \<Rightarrow> string \<Rightarrow> string" where
  "filePath_of outputDir checksum ext = outputDir @ ''/'' @ checksum @ ''.'' @ ext"

definition constructed_of :: "string \<Rightarrow> string \<Rightarrow> string \<Rightarrow> string" where
  "constructed_of ext httpDump body =
     (let constructed = [];
          constructed = (if ext = ''req'' then httpDump @ '' '' @ body else constructed);
          constructed = (if ext = ''res'' then httpDump else constructed)
      in constructed)"

definition WriteUniqueFile ::
  "filesystem \<Rightarrow> string \<Rightarrow> string \<Rightarrow> string \<Rightarrow> string \<Rightarrow> string \<Rightarrow> filesystem \<times> outcome" where
  "WriteUniqueFile fs checksum body outputDir httpDump ext =
     (let fs1 = (if outputDir \<noteq> ''./'' then fst (os_MkdirAll fs outputDir) else fs);
          filePath = filePath_of outputDir checksum ext
      in if \<not> FileExists fs1 filePath then
           (case AppendToFile fs1 (constructed_of ext httpDump body) filePath of
              (fs2, Some e) \<Rightarrow> (fs2, Fatal (''error writing to file: '' @ e))
            | (fs2, None) \<Rightarrow> (fs2, Returned))
         else (fs1, Returned))"

text \<open>An empty file system on which every operation succeeds.\<close>

definition empty_fs :: filesystem where
  "empty_fs = \<lparr>files = Map.empty, dirs = {}, writes = [],
          stat_err = (\<lambda>_. None), mkdir_err = (\<lambda>_. None),
          open_err = (\<lambda>_. None), write_err = (\<lambda>_. None)\<rparr>"

section \<open>Requests, responses and the transaction context\<close>

text \<open>
  An \<^verbatim>\<open>io.Reader\<close> such as a request or response body: the bytes it will still deliver
  and, when it ends in an error instead of \<^verbatim>\<open>io.EOF\<close>, that error. Reading consumes
  the bytes.
\<close>

record reader =
  unread :: string
  read_error :: "string option"

text \<open>
  \<^verbatim>\<open>ioutil.ReadAll(r)\<close> and \<^verbatim>\<open>buf.ReadFrom(r)\<close> read until the end or the first error:
  they give the bytes read, the error if any, and leave the reader drained.
\<close>

definition ioutil_ReadAll :: "reader \<Rightarrow> string \<times> string option \<times> reader" where
  "ioutil_ReadAll r = (unread r, read_error r, r\<lparr>unread := []\<rparr>)"

text \<open>\<^verbatim>\<open>ioutil.NopCloser(bytes.NewBuffer(b))\<close>: a fresh reader over \<open>b\<close>.\<close>

definition bytes_NewBuffer :: "string \<Rightarrow> reader" where
  "bytes_NewBuffer b = \<lparr>unread = b, read_error = None\<rparr>"

text \<open>\<^verbatim>\<open>url.URL\<close>, \<^verbatim>\<open>http.Request\<close> and \<^verbatim>\<open>http.Response\<close>, with the fields in use.\<close>

record url =
  Scheme :: string
  Host :: string
  Path :: string
  RawQuery :: string

record http_message =
  Header :: "(string \<times> string list) list"
  Body :: reader

record http_request = http_message +
  Method :: string
  URL :: url

record http_response = http_message +
  StatusCode :: int

text \<open>
  \<^verbatim>\<open>filters.UserData\<close>, the value the request filter stores in the proxy context. The
  slot \<^verbatim>\<open>ctx.UserData\<close> has type \<^verbatim>\<open>interface{}\<close>: it is \<^verbatim>\<open>nil\<close> until a filter
  sets it, and the assertion \<^verbatim>\<open>ctx.UserData.(filters.UserData)\<close> panics on \<^verbatim>\<open>nil\<close>.
\<close>

record UserData =
  ReqBody :: string
  ReqDump :: string
  Checksum :: string

datatype userdata_slot = Nil | IsUserData UserData

record ProxyCtx =
  UserData :: userdata_slot

text \<open>\<^verbatim>\<open>config.Flags\<close>, with the two fields the filters read.\<close>

record Flags =
  URLFile :: string
  OutputDir :: string

text \<open>
  JSON values as \<^verbatim>\<open>json.Unmarshal\<close> stores them in an \<^verbatim>\<open>interface{}\<close>. A number is
  kept as its literal text. A Go map (\<^verbatim>\<open>map[string]interface{}\<close>, \<^verbatim>\<open>url.Values\<close>) is
  an association list; \<^verbatim>\<open>range\<close> visits every key once, in an order the language
  leaves open, so what a loop over a map emits is a multiset.
\<close>

datatype json =
  JNull | JBool bool | JNumber string | JString string
  | JArray "json list" | JObject "(string \<times> json) list"

definition range_keys :: "(string \<times> 'v) list \<Rightarrow> string multiset" where
  "range_keys m = mset (remdups (map fst m))"

text \<open>
  What the program takes from the Go standard library, from the network and from
  \<^verbatim>\<open>goproxy\<close>, beyond the functions modelled above. The program's own functions take
  this environment as their first argument, and the properties proved of them hold for
  every environment. \<^verbatim>\<open>json_Unmarshal\<close> decodes into a \<^verbatim>\<open>map[string]interface{}\<close>;
  \<^verbatim>\<open>URL_Query\<close> is \<^verbatim>\<open>req.URL.Query()\<close>; \<^verbatim>\<open>regexp_Compile\<close> gives an error or the
  compiled expression as its \<^verbatim>\<open>MatchString\<close>; \<^verbatim>\<open>json_Marshal_text\<close> is
  \<^verbatim>\<open>json.Marshal\<close> of a struct with the one field \<^verbatim>\<open>Text\<close>, tagged \<^verbatim>\<open>json:"text"\<close>;
  \<^verbatim>\<open>client_Do\<close> is \<^verbatim>\<open>(&http.Client{Timeout: t}).Do\<close>, given the timeout in seconds,
  and its error covers a failed connection and a timeout before the response arrived.
\<close>

record env =
  httputil_DumpRequest :: "http_request \<Rightarrow> bool \<Rightarrow> string \<times> string option"
  httputil_DumpResponse :: "http_response \<Rightarrow> bool \<Rightarrow> string \<times> string option"
  strings_ToLower :: "string \<Rightarrow> string"
  json_Unmarshal :: "string \<Rightarrow> string + (string \<times> json) list"
  URL_Query :: "url \<Rightarrow> (string \<times> string list) list"
  regexp_Compile :: "string \<Rightarrow> string + (string \<Rightarrow> bool)"
  bufio_ScanLines :: "string \<Rightarrow> string list \<times> string option"
  json_Marshal_text :: "string \<Rightarrow> string"
  http_NewRequest :: "string \<Rightarrow> string \<Rightarrow> reader \<Rightarrow> string + http_request"
  client_Do :: "nat \<Rightarrow> http_request \<Rightarrow> string + http_response"

section \<open>\<^verbatim>\<open>pkg/utils\<close>: reading lines, notification, detectors\<close>

text \<open>
  \<^verbatim>\<open>func ReadLines(path string) ([]string, error)\<close>: \<^verbatim>\<open>os.Open\<close> fails on a missing
  file; otherwise a \<^verbatim>\<open>bufio.Scanner\<close> splits the content into lines.
\<close>

definition ReadLines :: "env \<Rightarrow> filesystem \<Rightarrow> string \<Rightarrow> string list \<times> string option" where
  "ReadLines E fs path =
     (case open_err fs path of
        Some e \<Rightarrow> ([], Some e)
      | None \<Rightarrow>
          (case files fs path of
             None \<Rightarrow> ([], Some (''open '' @ path @ '': no such file or directory''))
           | Some content \<Rightarrow> bufio_ScanLines E content))"

text \<open>\<^verbatim>\<open>req.Header.Add(key, value)\<close>.\<close>

fun Header_Add :: "(string \<times> string list) list \<Rightarrow> string \<Rightarrow> string \<Rightarrow> (string \<times> string list) list" where
  "Header_Add [] key v = [(key, [v])]"
| "Header_Add ((k, vs) # h) key v =
     (if k = key then (k, vs @ [v]) # h else (k, vs) # Header_Add h key v)"

text \<open>
  \<^verbatim>\<open>func SendSlackNotification(webhookUrl string, msg string) error\<close>. The result is the
  error, \<open>None\<close> for \<^verbatim>\<open>nil\<close>. The error of \<^verbatim>\<open>json.Marshal\<close> and the result of
  \<^verbatim>\<open>buf.ReadFrom\<close> are dropped by the source; the status code of the response is not
  looked at.
\<close>

definition SendSlackNotification :: "env \<Rightarrow> string \<Rightarrow> string \<Rightarrow> string option" where
  "SendSlackNotification E webhookUrl msg =
     (let slackBody = json_Marshal_text E msg in
      case http_NewRequest E ''POST'' webhookUrl (bytes_NewBuffer slackBody) of
        Inl err \<Rightarrow> Some err
      | Inr req \<Rightarrow>
          (let req = req\<lparr>Header := Header_Add (Header req) ''Content-Type'' ''application/json''\<rparr> in
           case client_Do E 10 req of
             Inl err \<Rightarrow> Some err
           | Inr resp \<Rightarrow>
               (let buf = fst (ioutil_ReadAll (Body resp)) in
                if buf \<noteq> ''ok'' then Some ''Non-ok response returned from Slack'' else None)))"

text \<open>
  \<^verbatim>\<open>func DetectInJsonReqBody(huntType string, jsonParam string, ud filters.UserData) error\<close>.
  The result is the error returned and the multiset of messages given to
  \<^verbatim>\<open>fmt.Println\<close>.
\<close>

definition json_slackMsg :: "string \<Rightarrow> string \<Rightarrow> string \<Rightarrow> string" where
  "json_slackMsg huntType bodyParam checksum =
     huntType @ '' \<newline>REQUEST BODY PARAM: `'' @ bodyParam @ ''` \<newline>FILE:  `'' @ checksum @ ''`''"

definition DetectInJsonReqBody ::
  "env \<Rightarrow> string \<Rightarrow> string \<Rightarrow> UserData \<Rightarrow> string option \<times> string multiset" where
  "DetectInJsonReqBody E huntType jsonParam ud =
     (if ReqBody ud = [] then (None, {#})
      else
        (case json_Unmarshal E (ReqBody ud) of
           Inl err \<Rightarrow> (Some err, {#})
         | Inr bodyMap \<Rightarrow>
             (None,
              image_mset (\<lambda>bodyParam. json_slackMsg huntType bodyParam (Checksum ud))
                (filter_mset
                   (\<lambda>bodyParam. strings_Contains (strings_ToLower E bodyParam) (strings_ToLower E jsonParam))
                   (range_keys bodyMap)))))"

text \<open>
  \<^verbatim>\<open>func DetectInReqQueryParam(huntType string, req *http.Request, jsonParam string, ud filters.UserData)\<close>:
  the multiset of messages given to \<^verbatim>\<open>fmt.Println\<close>.
\<close>

definition query_slackMsg :: "string \<Rightarrow> string \<Rightarrow> string \<Rightarrow> string" where
  "query_slackMsg huntType queryParam checksum =
     huntType @ '' \<newline>QUERY PARAM: `'' @ queryParam @ ''` \<newline>FILE:  `'' @ checksum @ ''`''"

definition DetectInReqQueryParam ::
  "env \<Rightarrow> string \<Rightarrow> http_request \<Rightarrow> string \<Rightarrow> UserData \<Rightarrow> string multiset" where
  "DetectInReqQueryParam E huntType req jsonParam ud =
     (let reqQueryMap = URL_Query E (URL req) in
      image_mset (\<lambda>queryParam. query_slackMsg huntType queryParam (Checksum ud))
        (filter_mset
           (\<lambda>queryParam. strings_Contains (strings_ToLower E queryParam) (strings_ToLower E jsonParam))
           (range_keys reqQueryMap)))"

section \<open>The filters\<close>

text \<open>
  \<^verbatim>\<open>goproxy.UrlMatches(re)\<close>: the condition
  \<^verbatim>\<open>re.MatchString(req.URL.Path) || re.MatchString(req.URL.Host+req.URL.Path)\<close>.
\<close>

definition goproxy_UrlMatches :: "(string \<Rightarrow> bool) \<Rightarrow> http_request \<Rightarrow> bool" where
  "goproxy_UrlMatches re req = (re (Path (URL req)) \<or> re (Host (URL req) @ Path (URL req)))"

text \<open>
  The pattern every filter compiles:
  \<^verbatim>\<open>fmt.Sprintf("(%v)", strings.Join(urlsList, ")|("))\<close>.
\<close>

definition urls_pattern :: "string list \<Rightarrow> string" where
  "urls_pattern urlsList = ''('' @ strings_Join urlsList '')|('' @ '')''"

text \<open>
  A request filter: its conditions and its handler. A handler gives back the request, the
  response that would short-cut the proxy (always \<^verbatim>\<open>nil\<close> here), the context and what
  it started or printed on the way. Building a filter can stop the process
  (\<^verbatim>\<open>log.Fatalf\<close>) or panic (\<^verbatim>\<open>regexp.MustCompile\<close>).
\<close>

datatype failure = FatalLog string | Panic string

text \<open>
  The part shared by the four constructors: read the lines of \<^verbatim>\<open>f.URLFile\<close>, compile
  the pattern, and make the one condition \<^verbatim>\<open>goproxy.UrlMatches\<close> of it.
\<close>

definition filter_Conditions :: "env \<Rightarrow> filesystem \<Rightarrow> Flags \<Rightarrow> failure + (http_request \<Rightarrow> bool) list" where
  "filter_Conditions E fs f =
     (case ReadLines E fs (URLFile f) of
        (urlsList, Some err) \<Rightarrow> Inl (FatalLog (''error reading lines from file: '' @ err))
      | (urlsList, None) \<Rightarrow>
          (case regexp_Compile E (urls_pattern urlsList) of
             Inl err \<Rightarrow> Inl (Panic err)
           | Inr re \<Rightarrow> Inr [goproxy_UrlMatches re]))"

text \<open>
  The handler of \<^verbatim>\<open>PopulateUserdata\<close>. Errors of \<^verbatim>\<open>ioutil.ReadAll\<close> and
  \<^verbatim>\<open>httputil.DumpRequest\<close> are printed and the handler goes on with what was read.
\<close>

definition Correlate :: "string \<Rightarrow> string \<Rightarrow> string \<Rightarrow> string" where
  "Correlate host path reqBody = hex_EncodeToString (sha1_Sum (bytes_of (host @ path @ reqBody)))"

definition PopulateUserdata_Handler ::
  "env \<Rightarrow> http_request \<Rightarrow> ProxyCtx \<Rightarrow> http_request \<times> http_response option \<times> ProxyCtx \<times> string list" where
  "PopulateUserdata_Handler E req ctx =
     (case ioutil_ReadAll (Body req) of
        (reqBody, err, drained) \<Rightarrow>
          (let req = req\<lparr>Body := drained\<rparr>;
               out1 = (case err of Some e \<Rightarrow> [''error reading reqBody: '' @ e @ ''\<newline>''] | None \<Rightarrow> [])
           in case httputil_DumpRequest E req False of
             (requestDump, err) \<Rightarrow>
               (let out2 = (case err of Some e \<Rightarrow> [''error on request dump: '' @ e @ ''\<newline>''] | None \<Rightarrow> []);
                    checksum = Correlate (Host (URL req)) (Path (URL req)) reqBody;
                    ctx = ctx\<lparr>UserData := IsUserData
                            \<lparr>ReqBody = reqBody, ReqDump = requestDump, Checksum = checksum\<rparr>\<rparr>;
                    req = req\<lparr>Body := bytes_NewBuffer reqBody\<rparr>
                in (req, None, ctx, out1 @ out2))))"

text \<open>
  A goroutine started with \<^verbatim>\<open>go utils.WriteUniqueFile(...)\<close> is a task on the file
  system that runs later, on its own.
\<close>

type_synonym task = "filesystem \<Rightarrow> filesystem \<times> outcome"

text \<open>The handler of \<^verbatim>\<open>WriteReq\<close>.\<close>

definition WriteReq_Handler ::
  "Flags \<Rightarrow> http_request \<Rightarrow> ProxyCtx \<Rightarrow> failure + http_request \<times> http_response option \<times> task list" where
  "WriteReq_Handler f req ctx =
     (case UserData ctx of
        Nil \<Rightarrow> Inl (Panic ''interface conversion: interface {} is nil, not filters.UserData'')
      | IsUserData ud \<Rightarrow>
          Inr (req, None,
               [\<lambda>fs. WriteUniqueFile fs (Checksum ud) (ReqBody ud) (OutputDir f) (ReqDump ud) ''req'']))"

text \<open>The handler of \<^verbatim>\<open>WriteResp\<close>.\<close>

definition WriteResp_Handler ::
  "env \<Rightarrow> Flags \<Rightarrow> http_response \<Rightarrow> ProxyCtx \<Rightarrow> failure + http_response \<times> task list \<times> string list" where
  "WriteResp_Handler E f res ctx =
     (case httputil_DumpResponse E res True of
        (responseDump, err) \<Rightarrow>
          (let out = (case err of Some e \<Rightarrow> [''error on response dump: '' @ e @ ''\<newline>''] | None \<Rightarrow> [])
           in case UserData ctx of
                Nil \<Rightarrow> Inl (Panic ''interface conversion: interface {} is nil, not filters.UserData'')
              | IsUserData ud \<Rightarrow>
                  Inr (res,
                       [\<lambda>fs. WriteUniqueFile fs (Checksum ud) (ReqBody ud) (OutputDir f) responseDump ''res''],
                       out)))"

text \<open>
  The handler of \<^verbatim>\<open>DetectIDOR\<close>. Every match starts a goroutine
  \<^verbatim>\<open>go utils.SendSlackNotification(hook, slackMsg)\<close>; the handler gives the multiset of
  the messages so dispatched.
\<close>

definition idorParams :: "string list" where
  "idorParams = [''account'', ''doc'', ''edit'', ''email'', ''group'', ''id'', ''key'', ''no'',
                 ''number'', ''order'', ''profile'', ''report'', ''user'']"

definition idor_slackMsg :: "string \<Rightarrow> string \<Rightarrow> string" where
  "idor_slackMsg queryParam checksum =
     ''IDOR \<newline>QUERY PARAM: `'' @ queryParam @ ''` \<newline>FILE:  `'' @ checksum @ ''`''"

definition DetectIDOR_Handler ::
  "env \<Rightarrow> http_request \<Rightarrow> ProxyCtx \<Rightarrow> failure + http_request \<times> http_response option \<times> string multiset" where
  "DetectIDOR_Handler E req ctx =
     (case UserData ctx of
        Nil \<Rightarrow> Inl (Panic ''interface conversion: interface {} is nil, not filters.UserData'')
      | IsUserData ud \<Rightarrow>
          (let reqQueryMap = URL_Query E (URL req) in
           Inr (req, None,
                fold (\<lambda>idorParam sent.
                        sent + image_mset (\<lambda>queryParam. idor_slackMsg queryParam (Checksum ud))
                          (filter_mset
                             (\<lambda>queryParam. strings_Contains (strings_ToLower E queryParam)
                                               (strings_ToLower E idorParam))
                             (range_keys reqQueryMap)))
                     idorParams {#})))"

section \<open>A model of the library\<close>

text \<open>
  One environment to run the program on: models of the library functions, written after
  the Go documentation and sources. Each is exact on the inputs it covers and says what
  it leaves out. The properties of the program are proved for every environment; this
  one serves to evaluate the program on concrete inputs.
\<close>

subsection \<open>\<^verbatim>\<open>strings.ToLower\<close>\<close>

text \<open>
  The letters \<^verbatim>\<open>A\<close> to \<^verbatim>\<open>Z\<close> are mapped to \<^verbatim>\<open>a\<close> to \<^verbatim>\<open>z\<close>. This is Go's result on
  every string of ASCII bytes; Go also lower-cases letters outside ASCII, which are left
  alone here.
\<close>

definition lower_byte :: "char \<Rightarrow> char" where
  "lower_byte c =
     (case map_of (zip ''ABCDEFGHIJKLMNOPQRSTUVWXYZ'' ''abcdefghijklmnopqrstuvwxyz'') c of
        Some l \<Rightarrow> l
      | None \<Rightarrow> c)"

definition ascii_ToLower :: "string \<Rightarrow> string" where
  "ascii_ToLower s = map lower_byte s"

subsection \<open>\<^verbatim>\<open>encoding/json\<close>\<close>

definition is_json_space :: "char \<Rightarrow> bool" where
  "is_json_space c = (c = CHR '' '' \<or> c = CHR 0x09 \<or> c = CHR 0x0A \<or> c = CHR 0x0D)"

definition is_digit :: "char \<Rightarrow> bool" where
  "is_digit c = ((48::nat) \<le> of_char c \<and> of_char c \<le> (57::nat))"

definition hex_value :: "char \<Rightarrow> nat option" where
  "hex_value c =
     (let n = (of_char c :: nat) in
      if 48 \<le> n \<and> n \<le> 57 then Some (n - 48)
      else if 97 \<le> n \<and> n \<le> 102 then Some (n - 87)
      else if 65 \<le> n \<and> n \<le> 70 then Some (n - 55)
      else None)"

text \<open>The UTF-8 encoding of a code point, as \<^verbatim>\<open>utf8.EncodeRune\<close> gives it.\<close>

definition utf8_encode :: "nat \<Rightarrow> string" where
  "utf8_encode n =
     (if n < 0x80 then [char_of n]
      else if n < 0x800 then [char_of (0xC0 + n div 64), char_of (0x80 + n mod 64)]
      else if n < 0x10000 then
        [char_of (0xE0 + n div 4096), char_of (0x80 + n div 64 mod 64), char_of (0x80 + n mod 64)]
      else
        [char_of (0xF0 + n div 262144), char_of (0x80 + n div 4096 mod 64),
         char_of (0x80 + n div 64 mod 64), char_of (0x80 + n mod 64)])"

text \<open>Four hexadecimal digits after \<^verbatim>\<open>\u\<close>: the code unit and the rest.\<close>

fun hex4 :: "string \<Rightarrow> (nat \<times> string) option" where
  "hex4 (a # b # c # d # rest) =
     (case (hex_value a, hex_value b, hex_value c, hex_value d) of
        (Some x, Some y, Some z, Some w) \<Rightarrow> Some (((x * 16 + y) * 16 + z) * 16 + w, rest)
      | _ \<Rightarrow> None)"
| "hex4 _ = None"

text \<open>
  A string literal after its opening quote, read byte by byte: the decoded bytes and the
  rest of the input. A \<^verbatim>\<open>\u\<close> escape gives the UTF-8 bytes of its code point; a high
  surrogate waits for the escape that follows, the two give one code point when that is a
  low surrogate, and a surrogate on its own gives U+FFFD. A byte below \<^verbatim>\<open>0x20\<close> is
  not allowed in a literal. Go also replaces bytes that are not valid UTF-8 by U+FFFD;
  they are copied here.
\<close>

datatype string_state = InString | InStringEsc | InStringEscU nat nat

definition flush_surrogate :: "nat option \<Rightarrow> string \<Rightarrow> string" where
  "flush_surrogate pending acc = (case pending of None \<Rightarrow> acc | Some hi \<Rightarrow> acc @ utf8_encode 0xFFFD)"

definition simple_escape :: "char \<Rightarrow> char option" where
  "simple_escape e =
     (if e = CHR 0x22 \<or> e = CHR 0x5C \<or> e = CHR ''/'' then Some e
      else if e = CHR ''b'' then Some (CHR 0x08)
      else if e = CHR ''f'' then Some (CHR 0x0C)
      else if e = CHR ''n'' then Some (CHR 0x0A)
      else if e = CHR ''r'' then Some (CHR 0x0D)
      else if e = CHR ''t'' then Some (CHR 0x09)
      else None)"

fun json_string :: "string_state \<Rightarrow> nat option \<Rightarrow> string \<Rightarrow> string \<Rightarrow> (string \<times> string) option" where
  "json_string st pending acc [] = None"
| "json_string InString pending acc (c # cs) =
     (if c = CHR 0x22 then Some (flush_surrogate pending acc, cs)
      else if (of_char c :: nat) < 0x20 then None
      else if c = CHR 0x5C then json_string InStringEsc pending acc cs
      else json_string InString None (flush_surrogate pending acc @ [c]) cs)"
| "json_string InStringEsc pending acc (e # es) =
     (if e = CHR ''u'' then json_string (InStringEscU 4 0) pending acc es
      else
        (case simple_escape e of
           None \<Rightarrow> None
         | Some d \<Rightarrow> json_string InString None (flush_surrogate pending acc @ [d]) es))"
| "json_string (InStringEscU k v) pending acc (h # hs) =
     (case hex_value h of
        None \<Rightarrow> None
      | Some d \<Rightarrow>
          (let u = v * 16 + d in
           if 1 < k then json_string (InStringEscU (k - 1) u) pending acc hs
           else
             (case pending of
                Some hi \<Rightarrow>
                  if 0xDC00 \<le> u \<and> u < 0xE000
                  then json_string InString None
                         (acc @ utf8_encode (0x10000 + (hi - 0xD800) * 1024 + (u - 0xDC00))) hs
                  else if 0xD800 \<le> u \<and> u < 0xDC00
                  then json_string InString (Some u) (acc @ utf8_encode 0xFFFD) hs
                  else json_string InString None (acc @ utf8_encode 0xFFFD @ utf8_encode u) hs
              | None \<Rightarrow>
                  if 0xD800 \<le> u \<and> u < 0xDC00 then json_string InString (Some u) acc hs
                  else if 0xDC00 \<le> u \<and> u < 0xE000
                  then json_string InString None (acc @ utf8_encode 0xFFFD) hs
                  else json_string InString None (acc @ utf8_encode u) hs)))"

text \<open>
  A number literal: an optional minus, \<^verbatim>\<open>0\<close> or digits that do not start with
  \<^verbatim>\<open>0\<close>, an optional fraction, an optional exponent. The result is its text and the
  rest of the input.
\<close>

definition json_digits :: "string \<Rightarrow> (string \<times> string) option" where
  "json_digits s =
     (let ds = takeWhile is_digit s in if ds = [] then None else Some (ds, dropWhile is_digit s))"

definition json_number :: "string \<Rightarrow> (string \<times> string) option" where
  "json_number s =
     (let (sign, s1) = (case s of c # cs \<Rightarrow> if c = CHR ''-'' then ([c], cs) else ([], s) | [] \<Rightarrow> ([], s)) in
      case json_digits s1 of
        None \<Rightarrow> None
      | Some (ds, s2) \<Rightarrow>
          (let (ip, s3) = (if hd ds = CHR ''0'' then ([hd ds], tl ds @ s2) else (ds, s2)) in
           case (case s3 of
                   c # cs \<Rightarrow>
                     if c = CHR ''.'' then
                       (case json_digits cs of None \<Rightarrow> None | Some (fs, s4) \<Rightarrow> Some (c # fs, s4))
                     else Some ([], s3)
                 | [] \<Rightarrow> Some ([], s3)) of
             None \<Rightarrow> None
           | Some (fp, s4) \<Rightarrow>
               (case (case s4 of
                        c # cs \<Rightarrow>
                          if c = CHR ''e'' \<or> c = CHR ''E'' then
                            (let (es, s5) = (case cs of
                                               d # ds' \<Rightarrow> if d = CHR ''+'' \<or> d = CHR ''-'' then ([d], ds') else ([], cs)
                                             | [] \<Rightarrow> ([], cs)) in
                             case json_digits s5 of
                               None \<Rightarrow> None
                             | Some (xs, s6) \<Rightarrow> Some (c # es @ xs, s6))
                          else Some ([], s4)
                      | [] \<Rightarrow> Some ([], s4)) of
                  None \<Rightarrow> None
                | Some (ep, s6) \<Rightarrow> Some (sign @ ip @ fp @ ep, s6))))"

text \<open>
  Values, the elements of an array after its \<^verbatim>\<open>[\<close>, and the members of an object
  after its \<^verbatim>\<open>{\<close>. The first argument bounds the number of nested calls; the length
  of the input is enough, since every call consumes a byte before the next.
\<close>

definition skip_space :: "string \<Rightarrow> string" where
  "skip_space s = dropWhile is_json_space s"

definition json_literal :: "string \<Rightarrow> (json \<times> string) option" where
  "json_literal s =
     (if strings_HasPrefix s ''true'' then Some (JBool True, drop 4 s)
      else if strings_HasPrefix s ''false'' then Some (JBool False, drop 5 s)
      else if strings_HasPrefix s ''null'' then Some (JNull, drop 4 s)
      else None)"

fun json_value :: "nat \<Rightarrow> string \<Rightarrow> (json \<times> string) option"
  and json_elements :: "nat \<Rightarrow> json list \<Rightarrow> string \<Rightarrow> (json list \<times> string) option"
  and json_members :: "nat \<Rightarrow> (string \<times> json) list \<Rightarrow> string \<Rightarrow> ((string \<times> json) list \<times> string) option"
  where
  "json_value 0 s = None"
| "json_value (Suc n) s =
     (case skip_space s of
        [] \<Rightarrow> None
      | c # cs \<Rightarrow>
          if c = CHR ''{'' then
            (case skip_space cs of
               [] \<Rightarrow> None
             | d # ds \<Rightarrow>
                 if d = CHR ''}'' then Some (JObject [], ds)
                 else (case json_members n [] cs of None \<Rightarrow> None | Some (kvs, r) \<Rightarrow> Some (JObject kvs, r)))
          else if c = CHR ''['' then
            (case skip_space cs of
               [] \<Rightarrow> None
             | d # ds \<Rightarrow>
                 if d = CHR '']'' then Some (JArray [], ds)
                 else (case json_elements n [] cs of None \<Rightarrow> None | Some (vs, r) \<Rightarrow> Some (JArray vs, r)))
          else if c = CHR 0x22 then
            (case json_string InString None [] cs of None \<Rightarrow> None | Some (str, r) \<Rightarrow> Some (JString str, r))
          else if c = CHR ''-'' \<or> is_digit c then
            (case json_number (c # cs) of None \<Rightarrow> None | Some (num, r) \<Rightarrow> Some (JNumber num, r))
          else json_literal (c # cs))"
| "json_elements 0 acc s = None"
| "json_elements (Suc n) acc s =
     (case json_value n s of
        None \<Rightarrow> None
      | Some (v, r) \<Rightarrow>
          (case skip_space r of
             [] \<Rightarrow> None
           | c # cs \<Rightarrow>
               if c = CHR '','' then json_elements n (acc @ [v]) cs
               else if c = CHR '']'' then Some (acc @ [v], cs)
               else None))"
| "json_members 0 acc s = None"
| "json_members (Suc n) acc s =
     (case skip_space s of
        [] \<Rightarrow> None
      | q # qs \<Rightarrow>
          if q = CHR 0x22 then
            (case json_string InString None [] qs of
               None \<Rightarrow> None
             | Some (k, r1) \<Rightarrow>
                 (case skip_space r1 of
                    [] \<Rightarrow> None
                  | c # cs \<Rightarrow>
                      if c = CHR '':'' then
                        (case json_value n cs of
                           None \<Rightarrow> None
                         | Some (v, r2) \<Rightarrow>
                             (case skip_space r2 of
                                [] \<Rightarrow> None
                              | d # ds \<Rightarrow>
                                  if d = CHR '','' then json_members n (acc @ [(k, v)]) ds
                                  else if d = CHR ''}'' then Some (acc @ [(k, v)], ds)
                                  else None))
                      else None))
          else None)"

text \<open>
  \<^verbatim>\<open>json.Unmarshal(data, &bodyMap)\<close> with \<^verbatim>\<open>bodyMap\<close> a
  \<^verbatim>\<open>map[string]interface{}\<close>. The whole input has to be one JSON value with nothing
  but white space around it. An object gives its members (a key that occurs twice keeps
  one entry in the Go map, which \<^const>\<open>range_keys\<close> accounts for); \<^verbatim>\<open>null\<close> gives no
  error and no entries; any other value is an error. Left out: Go refuses nesting deeper
  than 10000 and numbers outside the range of \<^verbatim>\<open>float64\<close>; the texts of the errors are
  not Go's.
\<close>

definition go_json_Unmarshal :: "string \<Rightarrow> string + (string \<times> json) list" where
  "go_json_Unmarshal data =
     (case json_value (Suc (length data)) data of
        None \<Rightarrow> Inl ''json: syntax error''
      | Some (v, rest) \<Rightarrow>
          if skip_space rest \<noteq> [] then Inl ''json: invalid character after top-level value''
          else
            (case v of
               JObject kvs \<Rightarrow> Inr kvs
             | JNull \<Rightarrow> Inr []
             | _ \<Rightarrow> Inl ''json: cannot unmarshal into Go value of type map[string]interface {}''))"

subsection \<open>\<^verbatim>\<open>regexp\<close>\<close>

text \<open>
  Regular expressions over bytes, with Brzozowski derivatives. \<open>AnyNotNL\<close> is the dot,
  which in Go matches every character but the newline.
\<close>

datatype rexp = Zero | Eps | Lit char | AnyNotNL | Alt rexp rexp | Seq rexp rexp | Star rexp

definition alt :: "rexp \<Rightarrow> rexp \<Rightarrow> rexp" where
  "alt r s = (if r = Zero then s else if s = Zero then r else if r = s then r else Alt r s)"

definition seq :: "rexp \<Rightarrow> rexp \<Rightarrow> rexp" where
  "seq r s = (if r = Zero \<or> s = Zero then Zero else if r = Eps then s else if s = Eps then r else Seq r s)"

fun nullable :: "rexp \<Rightarrow> bool" where
  "nullable Zero = False"
| "nullable Eps = True"
| "nullable (Lit c) = False"
| "nullable AnyNotNL = False"
| "nullable (Alt r s) = (nullable r \<or> nullable s)"
| "nullable (Seq r s) = (nullable r \<and> nullable s)"
| "nullable (Star r) = True"

fun deriv :: "char \<Rightarrow> rexp \<Rightarrow> rexp" where
  "deriv c Zero = Zero"
| "deriv c Eps = Zero"
| "deriv c (Lit d) = (if c = d then Eps else Zero)"
| "deriv c AnyNotNL = (if c = CHR 0x0A then Zero else Eps)"
| "deriv c (Alt r s) = alt (deriv c r) (deriv c s)"
| "deriv c (Seq r s) =
     (if nullable r then alt (seq (deriv c r) s) (deriv c s) else seq (deriv c r) s)"
| "deriv c (Star r) = seq (deriv c r) (Star r)"

text \<open>Some prefix of the string matches; some substring of the string matches.\<close>

fun match_prefix :: "rexp \<Rightarrow> string \<Rightarrow> bool" where
  "match_prefix r [] = nullable r"
| "match_prefix r (c # cs) = (nullable r \<or> (r \<noteq> Zero \<and> match_prefix (deriv c r) cs))"

fun match_anywhere :: "rexp \<Rightarrow> string \<Rightarrow> bool" where
  "match_anywhere r [] = nullable r"
| "match_anywhere r (c # cs) = (match_prefix r (c # cs) \<or> match_anywhere r cs)"

text \<open>
  The syntax, read left to right with a stack of open groups as
  \<^verbatim>\<open>regexp/syntax\<close> does. A frame holds the alternatives already closed by \<^verbatim>\<open>|\<close>
  and the items of the concatenation being read.
\<close>

record frame =
  alts :: "rexp list"
  items :: "rexp list"

definition empty_frame :: frame where
  "empty_frame = \<lparr>alts = [], items = []\<rparr>"

definition concat_items :: "rexp list \<Rightarrow> rexp" where
  "concat_items rs = foldr seq rs Eps"

definition close_frame :: "frame \<Rightarrow> rexp" where
  "close_frame f = foldr alt (alts f) (concat_items (items f))"

definition push_item :: "rexp \<Rightarrow> frame \<Rightarrow> frame" where
  "push_item r f = f\<lparr>items := items f @ [r]\<rparr>"

definition is_alnum :: "char \<Rightarrow> bool" where
  "is_alnum c =
     (let n = (of_char c :: nat) in (48 \<le> n \<and> n \<le> 57) \<or> (65 \<le> n \<and> n \<le> 90) \<or> (97 \<le> n \<and> n \<le> 122))"

definition is_re_punct :: "char \<Rightarrow> bool" where
  "is_re_punct c = ((of_char c :: nat) < 0x80 \<and> \<not> is_alnum c)"

definition repeat_item :: "char \<Rightarrow> rexp \<Rightarrow> rexp" where
  "repeat_item c r =
     (if c = CHR ''*'' then Star r
      else if c = CHR ''+'' then seq r (Star r)
      else alt r Eps)"

text \<open>
  What came just before: nothing that can be repeated, an item, a repetition (which a
  \<^verbatim>\<open>?\<close> may still make lazy), or a lazy repetition.
\<close>

datatype re_prev = NoItem | Item | Repeated | Lazy

fun re_parse :: "bool \<Rightarrow> re_prev \<Rightarrow> frame list \<Rightarrow> string \<Rightarrow> string + rexp" where
  "re_parse esc prev [] s = Inl ''regexp: unexpected )''"
| "re_parse esc prev (f # st) [] =
     (if esc then Inl ''regexp: trailing backslash at end of expression''
      else if st \<noteq> [] then Inl ''regexp: missing closing )''
      else Inr (close_frame f))"
| "re_parse True prev (f # st) (c # cs) =
     (if is_re_punct c then re_parse False Item (push_item (Lit c) f # st) cs
      else Inl ''regexp: escape sequence outside this model'')"
| "re_parse False prev (f # st) (c # cs) =
     (if c = CHR 0x5C then re_parse True prev (f # st) cs
      else if c = CHR ''('' then
        (if strings_HasPrefix cs ''?'' then Inl ''regexp: group flags are outside this model''
         else re_parse False NoItem (empty_frame # f # st) cs)
      else if c = CHR '')'' then
        (case st of
           [] \<Rightarrow> Inl ''regexp: unexpected )''
         | g # st' \<Rightarrow> re_parse False Item (push_item (close_frame f) g # st') cs)
      else if c = CHR ''|'' then
        re_parse False NoItem (\<lparr>alts = alts f @ [concat_items (items f)], items = []\<rparr> # st) cs
      else if c = CHR ''*'' \<or> c = CHR ''+'' \<or> c = CHR ''?'' then
        (if prev = Item then
           re_parse False Repeated (f\<lparr>items := butlast (items f) @ [repeat_item c (last (items f))]\<rparr> # st) cs
         else if prev = Repeated \<and> c = CHR ''?'' then re_parse False Lazy (f # st) cs
         else if prev = NoItem then Inl ''regexp: missing argument to repetition operator''
         else Inl ''regexp: invalid nested repetition operator'')
      else if c = CHR ''.'' then re_parse False Item (push_item AnyNotNL f # st) cs
      else if c = CHR ''['' \<or> c = CHR ''{'' \<or> c = CHR ''^'' \<or> c = CHR ''$'' then
        Inl ''regexp: character classes, counted repetition and anchors are outside this model''
      else re_parse False Item (push_item (Lit c) f # st) cs)"

text \<open>
  \<^verbatim>\<open>regexp.Compile(expr)\<close>, giving the \<^verbatim>\<open>MatchString\<close> of the compiled expression,
  which looks for a match anywhere in the string. Covered: literal bytes, the dot,
  \<^verbatim>\<open>*\<close>, \<^verbatim>\<open>+\<close>, \<^verbatim>\<open>?\<close> and their lazy forms, \<^verbatim>\<open>|\<close>, groups and escaped
  punctuation, on patterns and strings of ASCII bytes. Go accepts more syntax (character
  classes, counted repetition, anchors, flags, escapes for classes); here such a pattern
  gives an error that says so.
\<close>

definition go_regexp_Compile :: "string \<Rightarrow> string + (string \<Rightarrow> bool)" where
  "go_regexp_Compile expr =
     (case re_parse False NoItem [empty_frame] expr of
        Inl err \<Rightarrow> Inl err
      | Inr r \<Rightarrow> Inr (match_anywhere r))"

subsection \<open>\<^verbatim>\<open>net/url\<close>, \<^verbatim>\<open>net/http\<close>, \<^verbatim>\<open>bufio\<close>\<close>

text \<open>\<^verbatim>\<open>strings.Cut(s, sep)\<close> for a separator of one byte, without the flag.\<close>

fun cut :: "char \<Rightarrow> string \<Rightarrow> string \<times> string" where
  "cut sep [] = ([], [])"
| "cut sep (c # cs) = (if c = sep then ([], cs) else (case cut sep cs of (a, b) \<Rightarrow> (c # a, b)))"

text \<open>The pieces of a string between occurrences of a byte.\<close>

fun split_on :: "char \<Rightarrow> string \<Rightarrow> string list" where
  "split_on sep [] = [[]]"
| "split_on sep (c # cs) =
     (if c = sep then [] # split_on sep cs
      else (case split_on sep cs of p # ps \<Rightarrow> (c # p) # ps | [] \<Rightarrow> [[c]]))"

text \<open>\<^verbatim>\<open>url.QueryUnescape\<close>: \<^verbatim>\<open>+\<close> is a space, \<^verbatim>\<open>%XX\<close> a byte.\<close>

fun QueryUnescape :: "string \<Rightarrow> string option" where
  "QueryUnescape [] = Some []"
| "QueryUnescape (c # cs) =
     (if c = CHR ''%'' then
        (case cs of
           a # b # rest \<Rightarrow>
             (case (hex_value a, hex_value b, QueryUnescape rest) of
                (Some x, Some y, Some r) \<Rightarrow> Some (char_of (x * 16 + y) # r)
              | _ \<Rightarrow> None)
         | _ \<Rightarrow> None)
      else
        (case QueryUnescape cs of
           None \<Rightarrow> None
         | Some r \<Rightarrow> Some ((if c = CHR ''+'' then CHR '' '' else c) # r)))"

text \<open>\<^verbatim>\<open>m[key] = append(m[key], value)\<close> on a map kept as an association list.\<close>

fun Values_Add :: "(string \<times> string list) list \<Rightarrow> string \<Rightarrow> string \<Rightarrow> (string \<times> string list) list" where
  "Values_Add [] key v = [(key, [v])]"
| "Values_Add ((k, vs) # m) key v =
     (if k = key then (k, vs @ [v]) # m else (k, vs) # Values_Add m key v)"

text \<open>
  \<^verbatim>\<open>url.ParseQuery\<close> as \<^verbatim>\<open>URL.Query()\<close> uses it, dropping the error: the pairs are
  separated by \<^verbatim>\<open>&\<close>; an empty pair, a pair with a semicolon and a pair whose key or
  value does not unescape are skipped. (Before Go 1.17 a semicolon separated pairs as
  well.)
\<close>

fun parseQuery :: "(string \<times> string list) list \<Rightarrow> string list \<Rightarrow> (string \<times> string list) list" where
  "parseQuery m [] = m"
| "parseQuery m (pair # pairs) =
     (if CHR '';'' \<in> set pair \<or> pair = [] then parseQuery m pairs
      else
        (case cut (CHR ''='') pair of
           (key, v) \<Rightarrow>
             (case (QueryUnescape key, QueryUnescape v) of
                (Some key', Some v') \<Rightarrow> parseQuery (Values_Add m key' v') pairs
              | _ \<Rightarrow> parseQuery m pairs)))"

definition go_URL_Query :: "url \<Rightarrow> (string \<times> string list) list" where
  "go_URL_Query u = parseQuery [] (split_on (CHR ''&'') (RawQuery u))"

text \<open>
  \<^verbatim>\<open>bufio.Scanner\<close> with the default split function: lines end at a newline, a carriage
  return before it is dropped, a last line without newline counts when it is not empty.
  A line of 65536 bytes or more stops the scan with an error.
\<close>

definition drop_cr :: "string \<Rightarrow> string" where
  "drop_cr l = (if l \<noteq> [] \<and> last l = CHR 0x0D then butlast l else l)"

fun scan_lines :: "string list \<Rightarrow> string list \<times> string option" where
  "scan_lines [] = ([], None)"
| "scan_lines [l] = (if 65536 \<le> length l then ([], Some ''bufio.Scanner: token too long'')
                     else if l = [] then ([], None) else ([drop_cr l], None))"
| "scan_lines (l # ls) =
     (if 65536 \<le> length l then ([], Some ''bufio.Scanner: token too long'')
      else (case scan_lines ls of (rest, err) \<Rightarrow> (drop_cr l # rest, err)))"

definition go_bufio_ScanLines :: "string \<Rightarrow> string list \<times> string option" where
  "go_bufio_ScanLines content = scan_lines (split_on (CHR 0x0A) content)"

text \<open>
  \<^verbatim>\<open>json.Marshal\<close> of the struct with the field \<^verbatim>\<open>Text\<close>: the object
  \<^verbatim>\<open>{"text":"..."}\<close> with the quote, the backslash, the control characters and
  \<^verbatim>\<open><\<close>, \<^verbatim>\<open>>\<close>, \<^verbatim>\<open>&\<close> escaped. Bytes from \<^verbatim>\<open>0x80\<close> on are copied, which is
  Go's result on valid UTF-8 other than U+2028 and U+2029.
\<close>

definition hex_digit :: "nat \<Rightarrow> char" where
  "hex_digit n = hextable ! (n mod 16)"

definition json_escape_byte :: "char \<Rightarrow> string" where
  "json_escape_byte c =
     (if c = CHR 0x22 \<or> c = CHR 0x5C then [CHR 0x5C, c]
      else if c = CHR 0x0A then [CHR 0x5C, CHR ''n'']
      else if c = CHR 0x0D then [CHR 0x5C, CHR ''r'']
      else if c = CHR 0x09 then [CHR 0x5C, CHR ''t'']
      else if (of_char c :: nat) < 0x20 \<or> c = CHR ''<'' \<or> c = CHR ''>'' \<or> c = CHR ''&'' then
        [CHR 0x5C, CHR ''u'', CHR ''0'', CHR ''0'', hex_digit (of_char c div 16), hex_digit (of_char c)]
      else [c])"

definition go_json_Marshal_text :: "string \<Rightarrow> string" where
  "go_json_Marshal_text msg = ''{\"text\":\"'' @ concat (map json_escape_byte msg) @ ''\"}''"

text \<open>
  \<^verbatim>\<open>http.NewRequest(method, url, body)\<close>. The URL is split into scheme, host, path and
  query. Of the errors of \<^verbatim>\<open>url.Parse\<close> the one for a control character in the URL
  is modelled.
\<close>

definition is_ctl :: "char \<Rightarrow> bool" where
  "is_ctl c = ((of_char c :: nat) < 0x20 \<or> (of_char c :: nat) = 0x7F)"

fun split_scheme :: "string \<Rightarrow> string \<Rightarrow> string \<times> string" where
  "split_scheme acc (a # b # c # rest) =
     (if a = CHR '':'' \<and> b = CHR ''/'' \<and> c = CHR ''/'' then (acc, rest)
      else split_scheme (acc @ [a]) (b # c # rest))"
| "split_scheme acc rest = ([], acc @ rest)"

definition parse_url :: "string \<Rightarrow> url" where
  "parse_url rawurl =
     (case cut (CHR ''?'') rawurl of
        (front, query) \<Rightarrow>
          (case split_scheme [] front of
             (scheme, rest) \<Rightarrow>
               if scheme = [] then \<lparr>Scheme = [], Host = [], Path = rest, RawQuery = query\<rparr>
               else \<lparr>Scheme = scheme, Host = takeWhile (\<lambda>c. c \<noteq> CHR ''/'') rest,
                      Path = dropWhile (\<lambda>c. c \<noteq> CHR ''/'') rest, RawQuery = query\<rparr>))"

definition go_http_NewRequest :: "string \<Rightarrow> string \<Rightarrow> reader \<Rightarrow> string + http_request" where
  "go_http_NewRequest method rawurl body =
     (if \<exists>c \<in> set rawurl. is_ctl c then Inl ''net/url: invalid control character in URL''
      else Inr \<lparr>Header = [], Body = body, Method = method, URL = parse_url rawurl\<rparr>)"

text \<open>
  \<^verbatim>\<open>httputil.DumpRequest(req, false)\<close> and \<^verbatim>\<open>httputil.DumpResponse(res, true)\<close>, in
  outline: the first line, the host, the header lines in the order given, an empty line,
  and for the response the body. The status line shows the code only.
\<close>

definition crlf :: string where
  "crlf = [CHR 0x0D, CHR 0x0A]"

definition header_lines :: "(string \<times> string list) list \<Rightarrow> string" where
  "header_lines h = concat (map (\<lambda>(k, vs). concat (map (\<lambda>v. k @ '': '' @ v @ crlf) vs)) h)"

definition RequestURI :: "url \<Rightarrow> string" where
  "RequestURI u =
     (if Path u = [] then ''/'' else Path u) @ (if RawQuery u = [] then [] else ''?'' @ RawQuery u)"

definition go_DumpRequest :: "http_request \<Rightarrow> bool \<Rightarrow> string \<times> string option" where
  "go_DumpRequest req body =
     ((if Method req = [] then ''GET'' else Method req) @ '' '' @ RequestURI (URL req) @ '' HTTP/1.1'' @ crlf
        @ (if Host (URL req) = [] then [] else ''Host: '' @ Host (URL req) @ crlf)
        @ header_lines (Header req) @ crlf
        @ (if body then unread (Body req) else []),
      None)"

fun decimal :: "nat \<Rightarrow> string" where
  "decimal n = (if n < 10 then [hextable ! n] else decimal (n div 10) @ [hextable ! (n mod 10)])"

definition go_DumpResponse :: "http_response \<Rightarrow> bool \<Rightarrow> string \<times> string option" where
  "go_DumpResponse res body =
     (''HTTP/1.1 '' @ decimal (nat (StatusCode res)) @ crlf
        @ header_lines (Header res) @ crlf
        @ (if body then unread (Body res) else []),
      if body then read_error (Body res) else None)"

subsection \<open>The environment\<close>

text \<open>The library as modelled above, over a network given by its \<^verbatim>\<open>client.Do\<close>.\<close>

definition go_env :: "(nat \<Rightarrow> http_request \<Rightarrow> string + http_response) \<Rightarrow> env" where
  "go_env net =
     \<lparr>httputil_DumpRequest = go_DumpRequest,
      httputil_DumpResponse = go_DumpResponse,
      strings_ToLower = ascii_ToLower,
      json_Unmarshal = go_json_Unmarshal,
      URL_Query = go_URL_Query,
      regexp_Compile = go_regexp_Compile,
      bufio_ScanLines = go_bufio_ScanLines,
      json_Marshal_text = go_json_Marshal_text,
      http_NewRequest = go_http_NewRequest,
      client_Do = net\<rparr>"

text \<open>
  A mock endpoint that answers every request with the given status code and body, and a
  network on which nothing answers in time.
\<close>

definition mock_endpoint :: "int \<Rightarrow> string \<Rightarrow> nat \<Rightarrow> http_request \<Rightarrow> string + http_response" where
  "mock_endpoint status body timeout req =
     Inr \<lparr>Header = [], Body = bytes_NewBuffer body, StatusCode = status\<rparr>"

definition silent_endpoint :: "nat \<Rightarrow> http_request \<Rightarrow> string + http_response" where
  "silent_endpoint timeout req =
     Inl ''context deadline exceeded (Client.Timeout exceeded while awaiting headers)''"

section \<open>Sample data\<close>

text \<open>
  Two requests to the same host and path with the same body, which differ in method,
  query string and headers; a context in which no filter has run; the flags.
\<close>

definition sample_request :: http_request where
  "sample_request =
     \<lparr>Header = [(''Accept'', [''*/*''])], Body = bytes_NewBuffer ''foo=bar'', Method = ''POST'',
      URL = \<lparr>Scheme = ''http'', Host = ''example.com'', Path = ''/x'', RawQuery = ''user_id=5&color=red''\<rparr>\<rparr>"

definition sample_request' :: http_request where
  "sample_request' =
     \<lparr>Header = [(''Cookie'', [''s=1''])], Body = bytes_NewBuffer ''foo=bar'', Method = ''PUT'',
      URL = \<lparr>Scheme = ''http'', Host = ''example.com'', Path = ''/x'', RawQuery = ''page=2''\<rparr>\<rparr>"

definition fresh_ctx :: ProxyCtx where
  "fresh_ctx = \<lparr>UserData = Nil\<rparr>"

definition sample_flags :: Flags where
  "sample_flags = \<lparr>URLFile = ''urls.txt'', OutputDir = ''out''\<rparr>"

definition userdata_with_body :: "string \<Rightarrow> UserData" where
  "userdata_with_body body = \<lparr>ReqBody = body, ReqDump = [], Checksum = ''abc123''\<rparr>"

text \<open>
  A file system that holds the URL list \<^verbatim>\<open>urls.txt\<close> with the two lines
  \<^verbatim>\<open>/api/.*\<close> and \<^verbatim>\<open>/health\<close>, and the sample request with another path.
\<close>

definition urls_fs :: filesystem where
  "urls_fs = empty_fs\<lparr>files := [''urls.txt'' \<mapsto> ''/api/.*\<newline>/health\<newline>'']\<rparr>"

definition request_to :: "string \<Rightarrow> http_request" where
  "request_to path = sample_request\<lparr>URL := (URL sample_request)\<lparr>Path := path\<rparr>\<rparr>"

text \<open>The expression that the pattern \<^verbatim>\<open>(/api/.*)|(/health)\<close> stands for.\<close>

definition api_or_health :: rexp where
  "api_or_health =
     Alt (Seq (Lit CHR ''/'') (Seq (Lit CHR ''a'') (Seq (Lit CHR ''p'') (Seq (Lit CHR ''i'')
            (Seq (Lit CHR ''/'') (Star AnyNotNL))))))
         (Seq (Lit CHR ''/'') (Seq (Lit CHR ''h'') (Seq (Lit CHR ''e'') (Seq (Lit CHR ''a'')
            (Seq (Lit CHR ''l'') (Seq (Lit CHR ''t'') (Lit CHR ''h'')))))))"

text \<open>
  What the handler of \<^verbatim>\<open>PopulateUserdata\<close> stores for the two sample requests, in the
  environment \<^const>\<open>go_env\<close>: the first is the earlier transaction, the second the later
  one.
\<close>

definition sample_userdata :: UserData where
  "sample_userdata =
     \<lparr>ReqBody = ''foo=bar'',
      ReqDump = fst (go_DumpRequest (sample_request\<lparr>Body := (Body sample_request)\<lparr>unread := []\<rparr>\<rparr>) False),
      Checksum = Correlate ''example.com'' ''/x'' ''foo=bar''\<rparr>"

definition sample_userdata' :: UserData where
  "sample_userdata' =
     \<lparr>ReqBody = ''foo=bar'',
      ReqDump = fst (go_DumpRequest (sample_request'\<lparr>Body := (Body sample_request')\<lparr>unread := []\<rparr>\<rparr>) False),
      Checksum = Correlate ''example.com'' ''/x'' ''foo=bar''\<rparr>"

section \<open>Properties\<close>

subsection \<open>The model of the library and the sample data\<close>

lemma go_env_simps [simp]:
  "httputil_DumpRequest (go_env net) = go_DumpRequest"
  "httputil_DumpResponse (go_env net) = go_DumpResponse"
  "strings_ToLower (go_env net) = ascii_ToLower"
  "json_Unmarshal (go_env net) = go_json_Unmarshal"
  "URL_Query (go_env net) = go_URL_Query"
  "regexp_Compile (go_env net) = go_regexp_Compile"
  "bufio_ScanLines (go_env net) = go_bufio_ScanLines"
  "json_Marshal_text (go_env net) = go_json_Marshal_text"
  "http_NewRequest (go_env net) = go_http_NewRequest"
  "client_Do (go_env net) = net"
  by (simp_all add: go_env_def)

lemma sample_request_fields [simp]:
  "Host (URL sample_request) = ''example.com''" "Path (URL sample_request) = ''/x''"
  "unread (Body sample_request) = ''foo=bar''"
  "Host (URL sample_request') = ''example.com''" "Path (URL sample_request') = ''/x''"
  "unread (Body sample_request') = ''foo=bar''"
  by (simp_all add: sample_request_def sample_request'_def bytes_NewBuffer_def)

lemma sample_dumps_differ:
  "fst (go_DumpRequest (sample_request\<lparr>Body := r\<rparr>) False) \<noteq> fst (go_DumpRequest (sample_request'\<lparr>Body := r'\<rparr>) False)"
  by (simp add: go_DumpRequest_def sample_request_def sample_request'_def)

lemmas json_eval = go_json_Unmarshal_def skip_space_def is_json_space_def is_digit_def
  json_number_def json_digits_def json_literal_def flush_surrogate_def

lemma Unmarshal_userId:
  "go_json_Unmarshal ''{\"userId\": 5, \"note\": \"x\"}''
     = Inr [(''userId'', JNumber ''5''), (''note'', JString ''x'')]"
  by (simp add: json_eval)

lemma Unmarshal_USERID:
  "go_json_Unmarshal ''{\"USERID\": 5, \"note\": \"x\"}''
     = Inr [(''USERID'', JNumber ''5''), (''note'', JString ''x'')]"
  by (simp add: json_eval)

lemma Unmarshal_form: "go_json_Unmarshal ''foo=bar'' = Inl ''json: syntax error''"
  by (simp add: json_eval)

lemma Unmarshal_null: "go_json_Unmarshal ''null'' = Inr []"
  by (simp add: json_eval)

lemma Unmarshal_array:
  "go_json_Unmarshal ''[1]'' = Inl ''json: cannot unmarshal into Go value of type map[string]interface {}''"
  by (simp add: json_eval)

lemma Query_sample: "go_URL_Query (URL sample_request) = [(''user_id'', [''5'']), (''color'', [''red''])]"
  by (simp add: go_URL_Query_def sample_request_def hex_value_def)

lemma lower_byte_eval:
  "lower_byte c =
     (if c = CHR ''A'' then CHR ''a'' else if c = CHR ''B'' then CHR ''b'' else if c = CHR ''C'' then CHR ''c''
      else if c = CHR ''D'' then CHR ''d'' else if c = CHR ''E'' then CHR ''e'' else if c = CHR ''F'' then CHR ''f''
      else if c = CHR ''G'' then CHR ''g'' else if c = CHR ''H'' then CHR ''h'' else if c = CHR ''I'' then CHR ''i''
      else if c = CHR ''J'' then CHR ''j'' else if c = CHR ''K'' then CHR ''k'' else if c = CHR ''L'' then CHR ''l''
      else if c = CHR ''M'' then CHR ''m'' else if c = CHR ''N'' then CHR ''n'' else if c = CHR ''O'' then CHR ''o''
      else if c = CHR ''P'' then CHR ''p'' else if c = CHR ''Q'' then CHR ''q'' else if c = CHR ''R'' then CHR ''r''
      else if c = CHR ''S'' then CHR ''s'' else if c = CHR ''T'' then CHR ''t'' else if c = CHR ''U'' then CHR ''u''
      else if c = CHR ''V'' then CHR ''v'' else if c = CHR ''W'' then CHR ''w'' else if c = CHR ''X'' then CHR ''x''
      else if c = CHR ''Y'' then CHR ''y'' else if c = CHR ''Z'' then CHR ''z'' else c)"
  by (simp add: lower_byte_def)

lemmas lower_eval = ascii_ToLower_def lower_byte_eval

lemma ToLower_user_id: "ascii_ToLower ''user_id'' = ''user_id''"
  by (simp add: lower_eval)

lemma ToLower_color: "ascii_ToLower ''color'' = ''color''"
  by (simp add: lower_eval)

lemma ToLower_idorParams: "map ascii_ToLower idorParams = idorParams"
  by (simp add: lower_eval idorParams_def)

lemma count_idorParams:
  assumes "ascii_ToLower q = q'"
  shows "length (filter (\<lambda>idorParam. strings_Contains (ascii_ToLower q) (ascii_ToLower idorParam)) idorParams)
         = length (filter (strings_Contains q') idorParams)"
proof -
  have "length (filter (\<lambda>idorParam. strings_Contains (ascii_ToLower q) (ascii_ToLower idorParam)) idorParams)
      = length (filter (strings_Contains q') (map ascii_ToLower idorParams))"
    unfolding assms length_filter_map comp_def ..
  then show ?thesis unfolding ToLower_idorParams .
qed


lemma userdata_with_body_simps [simp]:
  "ReqBody (userdata_with_body body) = body" "Checksum (userdata_with_body body) = ''abc123''"
  by (simp_all add: userdata_with_body_def)

subsection \<open>The file writer\<close>

lemma filePath_of_neq_dir: "filePath_of outputDir checksum ext \<noteq> outputDir"
  by (simp add: filePath_of_def)

lemma WriteUniqueFile_existing:
  assumes "files fs (filePath_of outputDir checksum ext) \<noteq> None"
  shows "snd (WriteUniqueFile fs checksum body outputDir httpDump ext) = Returned"
    and "files (fst (WriteUniqueFile fs checksum body outputDir httpDump ext)) = files fs"
    and "writes (fst (WriteUniqueFile fs checksum body outputDir httpDump ext)) = writes fs"
  using assms
  by (auto simp: WriteUniqueFile_def FileExists_def os_Stat_def os_MkdirAll_def Let_def
      split: option.splits)

lemma os_Stat_MkdirAll:
  "name \<noteq> path \<Longrightarrow> os_Stat (fst (os_MkdirAll fs path)) name = os_Stat fs name"
  by (simp add: os_Stat_def os_MkdirAll_def split: option.splits)

lemma open_err_MkdirAll [simp]: "open_err (fst (os_MkdirAll fs path)) = open_err fs"
  and write_err_MkdirAll [simp]: "write_err (fst (os_MkdirAll fs path)) = write_err fs"
  and files_MkdirAll [simp]: "files (fst (os_MkdirAll fs path)) = files fs"
  and writes_MkdirAll [simp]: "writes (fst (os_MkdirAll fs path)) = writes fs"
  by (simp_all add: os_MkdirAll_def split: option.splits)

lemma AppendToFile_fresh:
  assumes "os_Stat fs filePath = ErrNotExist" "open_err fs filePath = None"
    "write_err fs filePath = None" "filePath \<noteq> []"
  shows "snd (AppendToFile fs data filePath) = None"
    and "files (fst (AppendToFile fs data filePath)) filePath = Some (data @ ''\<newline>'')"
proof -
  from assms(1) have "files fs filePath = None"
    by (simp add: os_Stat_def split: option.splits if_splits)
  with assms(2-4) show "snd (AppendToFile fs data filePath) = None"
    and "files (fst (AppendToFile fs data filePath)) filePath = Some (data @ ''\<newline>'')"
    by (simp_all add: AppendToFile_def Let_def)
qed

lemma filePath_of_nonempty: "filePath_of outputDir checksum ext \<noteq> []"
  by (simp add: filePath_of_def)

lemma WriteUniqueFile_fresh:
  assumes "os_Stat fs (filePath_of outputDir checksum ext) = ErrNotExist"
    and "open_err fs (filePath_of outputDir checksum ext) = None"
    and "write_err fs (filePath_of outputDir checksum ext) = None"
  shows "snd (WriteUniqueFile fs checksum body outputDir httpDump ext) = Returned"
    and "files (fst (WriteUniqueFile fs checksum body outputDir httpDump ext))
           (filePath_of outputDir checksum ext)
         = Some (constructed_of ext httpDump body @ ''\<newline>'')"
proof -
  let ?p = "filePath_of outputDir checksum ext"
  let ?fs1 = "if outputDir \<noteq> ''./'' then fst (os_MkdirAll fs outputDir) else fs"
  have st: "os_Stat ?fs1 ?p = ErrNotExist"
    using assms(1) by (cases "outputDir = ''./''") (simp_all add: os_Stat_MkdirAll filePath_of_neq_dir)
  have oe: "open_err ?fs1 ?p = None" and we: "write_err ?fs1 ?p = None"
    using assms(2,3) by (cases "outputDir = ''./''"; simp)+
  note app = AppendToFile_fresh[OF st oe we filePath_of_nonempty]
  have ne: "\<not> FileExists ?fs1 ?p" using st by (simp add: FileExists_def)
  have eq: "WriteUniqueFile fs checksum body outputDir httpDump ext
     = (case AppendToFile ?fs1 (constructed_of ext httpDump body) ?p of
              (fs2, Some e) \<Rightarrow> (fs2, Fatal (''error writing to file: '' @ e))
            | (fs2, None) \<Rightarrow> (fs2, Returned))"
    unfolding WriteUniqueFile_def Let_def by (simp only: ne simp_thms if_True)
  obtain fs2 r where a: "AppendToFile ?fs1 (constructed_of ext httpDump body) ?p = (fs2, r)"
    by (cases "AppendToFile ?fs1 (constructed_of ext httpDump body) ?p")
  with app[of "constructed_of ext httpDump body"] have "r = None"
    and "files fs2 ?p = Some (constructed_of ext httpDump body @ ''\<newline>'')" by simp_all
  with eq a show "snd (WriteUniqueFile fs checksum body outputDir httpDump ext) = Returned"
    and "files (fst (WriteUniqueFile fs checksum body outputDir httpDump ext)) ?p
         = Some (constructed_of ext httpDump body @ ''\<newline>'')"
    by simp_all
qed

lemma empty_fs_simps [simp]:
  "files empty_fs = Map.empty" "dirs empty_fs = {}" "writes empty_fs = []" "stat_err empty_fs = (\<lambda>_. None)"
  "mkdir_err empty_fs = (\<lambda>_. None)" "open_err empty_fs = (\<lambda>_. None)" "write_err empty_fs = (\<lambda>_. None)"
  by (simp_all add: empty_fs_def)

lemma os_Stat_empty_fs [simp]: "os_Stat empty_fs name = ErrNotExist"
  by (simp add: os_Stat_def)

text \<open>
  Claim C1. \<^verbatim>\<open>WriteUniqueFile\<close> is idempotent per identifier, kind and output directory.
  Let a first call return after having created the file
  \<^verbatim>\<open>{outputDir}/{checksum}.{ext}\<close> (absent before, present after). Then a second call with
  the same identifier, kind and directory and any other dump and body returns too, leaves
  every file as it was, the file still holds the first payload and its newline, and over
  both calls exactly one write went to that path: the first payload.
\<close>

theorem WriteUniqueFile_idempotent:
  assumes first: "WriteUniqueFile fs checksum body1 outputDir dump1 ext = (fs1, Returned)"
    and absent: "files fs (filePath_of outputDir checksum ext) = None"
    and created: "files fs1 (filePath_of outputDir checksum ext) \<noteq> None"
    and second: "WriteUniqueFile fs1 checksum body2 outputDir dump2 ext = (fs2, r)"
  shows "r = Returned \<and> files fs2 = files fs1
       \<and> files fs2 (filePath_of outputDir checksum ext) = Some (constructed_of ext dump1 body1 @ ''\<newline>'')
       \<and> filter (\<lambda>w. fst w = filePath_of outputDir checksum ext) (writes fs2)
         = filter (\<lambda>w. fst w = filePath_of outputDir checksum ext) (writes fs)
           @ [(filePath_of outputDir checksum ext, constructed_of ext dump1 body1 @ ''\<newline>'')]"
proof -
  let ?p = "filePath_of outputDir checksum ext"
  from first absent created
  have one: "files fs1 ?p = Some (constructed_of ext dump1 body1 @ ''\<newline>'')"
    and log: "writes fs1 = writes fs @ [(?p, constructed_of ext dump1 body1 @ ''\<newline>'')]"
    by (auto simp: WriteUniqueFile_def AppendToFile_def FileExists_def os_Stat_def os_MkdirAll_def Let_def
      split: option.splits if_splits)
  from WriteUniqueFile_existing[OF created, of body2 dump2] second
  have "r = Returned" "files fs2 = files fs1" "writes fs2 = writes fs1" by simp_all
  with one log show ?thesis by simp
qed

theorem WriteUniqueFile_idempotent_witness:
  "snd (WriteUniqueFile (fst (WriteUniqueFile empty_fs ''abc123'' ''foo=bar'' ''out'' ''GET /x HTTP/1.1'' ''req''))
         ''abc123'' ''other=1'' ''out'' ''POST /x HTTP/1.1'' ''req'') = Returned
   \<and> files (fst (WriteUniqueFile (fst (WriteUniqueFile empty_fs ''abc123'' ''foo=bar'' ''out'' ''GET /x HTTP/1.1'' ''req''))
         ''abc123'' ''other=1'' ''out'' ''POST /x HTTP/1.1'' ''req'')) ''out/abc123.req''
       = Some ''GET /x HTTP/1.1 foo=bar\<newline>''
   \<and> filter (\<lambda>w. fst w = ''out/abc123.req'')
        (writes (fst (WriteUniqueFile (fst (WriteUniqueFile empty_fs ''abc123'' ''foo=bar'' ''out'' ''GET /x HTTP/1.1'' ''req''))
         ''abc123'' ''other=1'' ''out'' ''POST /x HTTP/1.1'' ''req'')))
       = [(''out/abc123.req'', ''GET /x HTTP/1.1 foo=bar\<newline>'')]"
proof -
  let ?fs1 = "fst (WriteUniqueFile empty_fs ''abc123'' ''foo=bar'' ''out'' ''GET /x HTTP/1.1'' ''req'')"
  let ?w2 = "WriteUniqueFile ?fs1 ''abc123'' ''other=1'' ''out'' ''POST /x HTTP/1.1'' ''req''"
  have fresh: "snd (WriteUniqueFile empty_fs ''abc123'' ''foo=bar'' ''out'' ''GET /x HTTP/1.1'' ''req'') = Returned"
    "files ?fs1 (filePath_of ''out'' ''abc123'' ''req'') = Some (constructed_of ''req'' ''GET /x HTTP/1.1'' ''foo=bar'' @ ''\<newline>'')"
    by (rule WriteUniqueFile_fresh; simp)+
  have first: "WriteUniqueFile empty_fs ''abc123'' ''foo=bar'' ''out'' ''GET /x HTTP/1.1'' ''req'' = (?fs1, Returned)"
    using fresh(1) by (simp add: prod_eq_iff)
  have absent: "files empty_fs (filePath_of ''out'' ''abc123'' ''req'') = None" by simp
  have created: "files ?fs1 (filePath_of ''out'' ''abc123'' ''req'') \<noteq> None"
    using fresh(2) by simp
  have second: "?w2 = (fst ?w2, snd ?w2)" by simp
  from WriteUniqueFile_idempotent [OF first absent created second] fresh(2)
  show ?thesis by (simp add: filePath_of_def constructed_of_def)
qed

text \<open>
  Claim C3. When the file is absent and can be opened and written, \<^verbatim>\<open>WriteUniqueFile\<close>
  with kind \<^verbatim>\<open>req\<close> leaves in \<^verbatim>\<open>{outputDir}/{checksum}.req\<close> the dump, one space, the
  body and a newline; with kind \<^verbatim>\<open>res\<close> it leaves in \<^verbatim>\<open>{outputDir}/{checksum}.res\<close>
  the dump and a newline. The witness is the literal example: identifier \<^verbatim>\<open>abc123\<close>, dump
  \<^verbatim>\<open>GET /x HTTP/1.1\<close>, body \<^verbatim>\<open>foo=bar\<close>.
\<close>

theorem WriteUniqueFile_content:
  assumes "os_Stat fs (filePath_of outputDir checksum ext) = ErrNotExist"
    and "open_err fs (filePath_of outputDir checksum ext) = None"
    and "write_err fs (filePath_of outputDir checksum ext) = None"
  shows "snd (WriteUniqueFile fs checksum body outputDir httpDump ext) = Returned
    \<and> (ext = ''req'' \<longrightarrow> files (fst (WriteUniqueFile fs checksum body outputDir httpDump ext)) (outputDir @ ''/'' @ checksum @ ''.req'')
      = Some (httpDump @ '' '' @ body @ ''\<newline>''))
    \<and> (ext = ''res'' \<longrightarrow> files (fst (WriteUniqueFile fs checksum body outputDir httpDump ext)) (outputDir @ ''/'' @ checksum @ ''.res'')
      = Some (httpDump @ ''\<newline>''))"
  using WriteUniqueFile_fresh[OF assms, of body httpDump]
  by (auto simp: constructed_of_def filePath_of_def)

theorem WriteUniqueFile_content_witness:
  "snd (WriteUniqueFile empty_fs ''abc123'' ''foo=bar'' ''out'' ''GET /x HTTP/1.1'' ''req'') = Returned
   \<and> files (fst (WriteUniqueFile empty_fs ''abc123'' ''foo=bar'' ''out'' ''GET /x HTTP/1.1'' ''req''))
        ''out/abc123.req'' = Some ''GET /x HTTP/1.1 foo=bar\<newline>''
   \<and> files (fst (WriteUniqueFile empty_fs ''abc123'' ''foo=bar'' ''out'' ''HTTP/1.1 200 OK'' ''res''))
        ''out/abc123.res'' = Some ''HTTP/1.1 200 OK\<newline>''"
  using WriteUniqueFile_content [of empty_fs "''out''" "''abc123''" "''req''" "''foo=bar''" "''GET /x HTTP/1.1''"]
    WriteUniqueFile_content [of empty_fs "''out''" "''abc123''" "''res''" "''foo=bar''" "''HTTP/1.1 200 OK''"]
  by simp

subsection \<open>The request filter that fills the context\<close>

lemma PopulateUserdata_Handler_result:
  "PopulateUserdata_Handler E req ctx =
     (req\<lparr>Body := bytes_NewBuffer (unread (Body req))\<rparr>, None,
      ctx\<lparr>UserData := IsUserData
             \<lparr>ReqBody = unread (Body req),
              ReqDump = fst (httputil_DumpRequest E (req\<lparr>Body := (Body req)\<lparr>unread := []\<rparr>\<rparr>) False),
              Checksum = Correlate (Host (URL req)) (Path (URL req)) (unread (Body req))\<rparr>\<rparr>,
      (case read_error (Body req) of Some e \<Rightarrow> [''error reading reqBody: '' @ e @ ''\<newline>''] | None \<Rightarrow> [])
      @ (case snd (httputil_DumpRequest E (req\<lparr>Body := (Body req)\<lparr>unread := []\<rparr>\<rparr>) False) of
           Some e \<Rightarrow> [''error on request dump: '' @ e @ ''\<newline>''] | None \<Rightarrow> []))"
  by (simp add: PopulateUserdata_Handler_def ioutil_ReadAll_def Let_def split: prod.splits)

lemma quadruple_collapse: "x = (fst x, fst (snd x), fst (snd (snd x)), snd (snd (snd x)))"
  by simp

text \<open>
  Claim C9. After the handler of \<^verbatim>\<open>PopulateUserdata\<close> the request body is restored.
  Reading the body drains the stream (nothing is left unread in it), and the request the
  handler returns carries a fresh body: read to its end it yields exactly the bytes the
  original body delivered, without an error. The same bytes are stored as \<^verbatim>\<open>ReqBody\<close>
  in the context; method, URL and headers of the request are unchanged, and no response
  is returned.
\<close>

theorem PopulateUserdata_restores_body:
  assumes "PopulateUserdata_Handler E req ctx = (req', resp, ctx', out)"
  shows "ioutil_ReadAll (Body req') = (unread (Body req), None, bytes_NewBuffer [])
       \<and> fst (ioutil_ReadAll (Body req)) = unread (Body req)
       \<and> unread (snd (snd (ioutil_ReadAll (Body req)))) = []
       \<and> UserData ctx' = IsUserData \<lparr>ReqBody = unread (Body req),
              ReqDump = fst (httputil_DumpRequest E (req\<lparr>Body := snd (snd (ioutil_ReadAll (Body req)))\<rparr>) False),
              Checksum = Correlate (Host (URL req)) (Path (URL req)) (unread (Body req))\<rparr>
       \<and> Method req' = Method req \<and> URL req' = URL req \<and> Header req' = Header req \<and> resp = None"
  using assms unfolding PopulateUserdata_Handler_result
  by (auto simp: ioutil_ReadAll_def bytes_NewBuffer_def)

theorem PopulateUserdata_restores_body_witness:
  "ioutil_ReadAll (Body (fst (PopulateUserdata_Handler (go_env silent_endpoint) sample_request fresh_ctx)))
     = (''foo=bar'', None, bytes_NewBuffer [])
   \<and> fst (ioutil_ReadAll (Body sample_request)) = ''foo=bar''
   \<and> unread (snd (snd (ioutil_ReadAll (Body sample_request)))) = []"
  using PopulateUserdata_restores_body [OF quadruple_collapse, of "go_env silent_endpoint" sample_request fresh_ctx]
  by (simp add: sample_request_def bytes_NewBuffer_def)

text \<open>
  Claim C2. The identifier is a function of host, path and body alone. Two runs of the
  handler on requests with the same URL host, URL path and body bytes store the same
  \<^verbatim>\<open>Checksum\<close>, namely \<^const>\<open>Correlate\<close> of the three, whatever the environments, the
  contexts the runs start from (so whatever ran before) and the other fields of the
  requests.
\<close>

theorem Correlate_deterministic:
  assumes "Host (URL req1) = Host (URL req2)" and "Path (URL req1) = Path (URL req2)"
    and "unread (Body req1) = unread (Body req2)"
    and "PopulateUserdata_Handler E1 req1 ctx1 = (req1', resp1, ctx1', out1)"
    and "PopulateUserdata_Handler E2 req2 ctx2 = (req2', resp2, ctx2', out2)"
  shows "\<exists>ud1 ud2. UserData ctx1' = IsUserData ud1 \<and> UserData ctx2' = IsUserData ud2
           \<and> Checksum ud1 = Checksum ud2
           \<and> Checksum ud1 = Correlate (Host (URL req1)) (Path (URL req1)) (unread (Body req1))"
  using assms unfolding PopulateUserdata_Handler_result by auto

theorem Correlate_deterministic_witness:
  "\<exists>ud1 ud2.
      UserData (fst (snd (snd (PopulateUserdata_Handler (go_env silent_endpoint) sample_request fresh_ctx))))
        = IsUserData ud1
    \<and> UserData (fst (snd (snd (PopulateUserdata_Handler (go_env (mock_endpoint 200 ''ok'')) sample_request'
                                  \<lparr>UserData = IsUserData ud1\<rparr>))))
        = IsUserData ud2
    \<and> Checksum ud1 = Checksum ud2
    \<and> Checksum ud1 = Correlate ''example.com'' ''/x'' ''foo=bar''"
proof -
  let ?p1 = "PopulateUserdata_Handler (go_env silent_endpoint) sample_request fresh_ctx"
  obtain ud where ud: "UserData (fst (snd (snd ?p1))) = IsUserData ud"
    by (simp add: PopulateUserdata_Handler_result)
  let ?p2 = "PopulateUserdata_Handler (go_env (mock_endpoint 200 ''ok'')) sample_request' \<lparr>UserData = IsUserData ud\<rparr>"
  have h: "Host (URL sample_request) = Host (URL sample_request')"
    "Path (URL sample_request) = Path (URL sample_request')"
    "unread (Body sample_request) = unread (Body sample_request')"
    by simp_all
  from Correlate_deterministic [OF h quadruple_collapse [of ?p1] quadruple_collapse [of ?p2]]
  obtain ud1 ud2 where "UserData (fst (snd (snd ?p1))) = IsUserData ud1"
    "UserData (fst (snd (snd ?p2))) = IsUserData ud2" "Checksum ud1 = Checksum ud2"
    "Checksum ud1 = Correlate ''example.com'' ''/x'' ''foo=bar''"
    by auto
  with ud show ?thesis by auto
qed

lemma WriteResp_Handler_result:
  "UserData ctx = IsUserData ud \<Longrightarrow>
   \<exists>out. WriteResp_Handler E f res ctx
           = Inr (res,
                  [\<lambda>fs. WriteUniqueFile fs (Checksum ud) (ReqBody ud) (OutputDir f)
                           (fst (httputil_DumpResponse E res True)) ''res''],
                  out)"
  by (simp add: WriteResp_Handler_def Let_def split: prod.splits)

text \<open>
  Claim C10, as the code has it. Two requests that agree in URL host, URL path and body
  bytes get the same identifier, though they may differ in query string, method and
  headers. So for every kind their artifact files have the same name, and the handlers of
  \<^verbatim>\<open>WriteReq\<close> and \<^verbatim>\<open>WriteResp\<close> start for each transaction the write to that name. A
  write of the later transaction is a no-op once the file of that name exists: then it
  returns without touching any file, whatever the kind and the payload.
\<close>

theorem same_identifier_same_artifact:
  assumes "Host (URL req1) = Host (URL req2)" and "Path (URL req1) = Path (URL req2)"
    and "unread (Body req1) = unread (Body req2)"
    and "PopulateUserdata_Handler E1 req1 ctx1 = (req1', resp1, ctx1', out1)"
    and "PopulateUserdata_Handler E2 req2 ctx2 = (req2', resp2, ctx2', out2)"
  shows "\<exists>ud1 ud2.
           UserData ctx1' = IsUserData ud1 \<and> UserData ctx2' = IsUserData ud2
         \<and> Checksum ud1 = Checksum ud2
         \<and> (\<forall>ext. filePath_of (OutputDir f) (Checksum ud1) ext = filePath_of (OutputDir f) (Checksum ud2) ext)
         \<and> WriteReq_Handler f req1' ctx1'
             = Inr (req1', None,
                    [\<lambda>fs. WriteUniqueFile fs (Checksum ud1) (ReqBody ud1) (OutputDir f) (ReqDump ud1) ''req''])
         \<and> WriteReq_Handler f req2' ctx2'
             = Inr (req2', None,
                    [\<lambda>fs. WriteUniqueFile fs (Checksum ud2) (ReqBody ud2) (OutputDir f) (ReqDump ud2) ''req''])
         \<and> (\<exists>out. WriteResp_Handler E1 f res1 ctx1'
                = Inr (res1,
                       [\<lambda>fs. WriteUniqueFile fs (Checksum ud1) (ReqBody ud1) (OutputDir f)
                                (fst (httputil_DumpResponse E1 res1 True)) ''res''],
                       out))
         \<and> (\<exists>out. WriteResp_Handler E2 f res2 ctx2'
                = Inr (res2,
                       [\<lambda>fs. WriteUniqueFile fs (Checksum ud2) (ReqBody ud2) (OutputDir f)
                                (fst (httputil_DumpResponse E2 res2 True)) ''res''],
                       out))
         \<and> (\<forall>fs ext body dump.
                files fs (filePath_of (OutputDir f) (Checksum ud1) ext) \<noteq> None \<longrightarrow>
                snd (WriteUniqueFile fs (Checksum ud2) body (OutputDir f) dump ext) = Returned
              \<and> files (fst (WriteUniqueFile fs (Checksum ud2) body (OutputDir f) dump ext)) = files fs
              \<and> writes (fst (WriteUniqueFile fs (Checksum ud2) body (OutputDir f) dump ext)) = writes fs)"
proof -
  let ?ck = "Correlate (Host (URL req1)) (Path (URL req1)) (unread (Body req1))"
  let ?ud1 = "\<lparr>ReqBody = unread (Body req1),
              ReqDump = fst (httputil_DumpRequest E1 (req1\<lparr>Body := (Body req1)\<lparr>unread := []\<rparr>\<rparr>) False),
              Checksum = ?ck\<rparr>"
  let ?ud2 = "\<lparr>ReqBody = unread (Body req2),
              ReqDump = fst (httputil_DumpRequest E2 (req2\<lparr>Body := (Body req2)\<lparr>unread := []\<rparr>\<rparr>) False),
              Checksum = ?ck\<rparr>"
  from assms have c1: "UserData ctx1' = IsUserData ?ud1" and c2: "UserData ctx2' = IsUserData ?ud2"
    unfolding PopulateUserdata_Handler_result by auto
  have noop: "\<forall>fs ext body dump.
                files fs (filePath_of (OutputDir f) (Checksum ?ud1) ext) \<noteq> None \<longrightarrow>
                snd (WriteUniqueFile fs (Checksum ?ud2) body (OutputDir f) dump ext) = Returned
              \<and> files (fst (WriteUniqueFile fs (Checksum ?ud2) body (OutputDir f) dump ext)) = files fs
              \<and> writes (fst (WriteUniqueFile fs (Checksum ?ud2) body (OutputDir f) dump ext)) = writes fs"
    using WriteUniqueFile_existing by simp
  have w1: "WriteReq_Handler f req1' ctx1'
             = Inr (req1', None,
                    [\<lambda>fs. WriteUniqueFile fs (Checksum ?ud1) (ReqBody ?ud1) (OutputDir f) (ReqDump ?ud1) ''req''])"
    and w2: "WriteReq_Handler f req2' ctx2'
             = Inr (req2', None,
                    [\<lambda>fs. WriteUniqueFile fs (Checksum ?ud2) (ReqBody ?ud2) (OutputDir f) (ReqDump ?ud2) ''req''])"
    by (simp_all add: WriteReq_Handler_def c1 c2)
  note r1 = WriteResp_Handler_result [OF c1, of E1 f res1]
  note r2 = WriteResp_Handler_result [OF c2, of E2 f res2]
  have same: "Checksum ?ud1 = Checksum ?ud2"
    and names: "\<forall>ext. filePath_of (OutputDir f) (Checksum ?ud1) ext = filePath_of (OutputDir f) (Checksum ?ud2) ext"
    by simp_all
  from c1 c2 same names w1 w2 r1 r2 noop show ?thesis by blast
qed

theorem same_identifier_same_artifact_witness:
  "\<exists>ud1 ud2.
      UserData (fst (snd (snd (PopulateUserdata_Handler (go_env silent_endpoint) sample_request fresh_ctx))))
        = IsUserData ud1
    \<and> UserData (fst (snd (snd (PopulateUserdata_Handler (go_env silent_endpoint) sample_request' fresh_ctx))))
        = IsUserData ud2
    \<and> ReqDump ud1 \<noteq> ReqDump ud2
    \<and> Checksum ud1 = Checksum ud2
    \<and> files (fst (WriteUniqueFile empty_fs (Checksum ud1) (ReqBody ud1) ''out'' (ReqDump ud1) ''req''))
          (filePath_of ''out'' (Checksum ud1) ''req'') = Some (ReqDump ud1 @ '' foo=bar\<newline>'')
    \<and> files (fst (WriteUniqueFile
                    (fst (WriteUniqueFile empty_fs (Checksum ud1) (ReqBody ud1) ''out'' (ReqDump ud1) ''req''))
                    (Checksum ud2) (ReqBody ud2) ''out'' (ReqDump ud2) ''req''))
        = files (fst (WriteUniqueFile empty_fs (Checksum ud1) (ReqBody ud1) ''out'' (ReqDump ud1) ''req''))
    \<and> files (fst (WriteUniqueFile
                    (fst (WriteUniqueFile empty_fs (Checksum ud1) (ReqBody ud1) ''out'' ''HTTP/1.1 200 OK'' ''res''))
                    (Checksum ud2) (ReqBody ud2) ''out'' ''HTTP/1.1 404 Not Found'' ''res''))
        = files (fst (WriteUniqueFile empty_fs (Checksum ud1) (ReqBody ud1) ''out'' ''HTTP/1.1 200 OK'' ''res''))"
proof -
  let ?E = "go_env silent_endpoint"
  let ?p1 = "PopulateUserdata_Handler ?E sample_request fresh_ctx"
  let ?p2 = "PopulateUserdata_Handler ?E sample_request' fresh_ctx"
  have h: "Host (URL sample_request) = Host (URL sample_request')"
    "Path (URL sample_request) = Path (URL sample_request')"
    "unread (Body sample_request) = unread (Body sample_request')"
    by simp_all
  let ?res = "\<lparr>Header = [], Body = bytes_NewBuffer ''ok'', StatusCode = 200\<rparr>"
  from same_identifier_same_artifact [OF h quadruple_collapse [of ?p1] quadruple_collapse [of ?p2],
      where f = sample_flags and ?res1.0 = ?res and ?res2.0 = ?res]
  obtain ud1 ud2 where u1: "UserData (fst (snd (snd ?p1))) = IsUserData ud1"
    and u2: "UserData (fst (snd (snd ?p2))) = IsUserData ud2"
    and ck: "Checksum ud1 = Checksum ud2"
    and noop: "\<And>fs ext body dump. files fs (filePath_of (OutputDir sample_flags) (Checksum ud1) ext) \<noteq> None \<Longrightarrow>
         files (fst (WriteUniqueFile fs (Checksum ud2) body (OutputDir sample_flags) dump ext)) = files fs"
    by blast
  have od [simp]: "OutputDir sample_flags = ''out''" by (simp add: sample_flags_def)
  from u1 have r1: "ReqBody ud1 = ''foo=bar''"
    "ReqDump ud1 = fst (go_DumpRequest (sample_request\<lparr>Body := (Body sample_request)\<lparr>unread := []\<rparr>\<rparr>) False)"
    by (auto simp: PopulateUserdata_Handler_result)
  from u2 have r2: "ReqDump ud2 = fst (go_DumpRequest (sample_request'\<lparr>Body := (Body sample_request')\<lparr>unread := []\<rparr>\<rparr>) False)"
    by (auto simp: PopulateUserdata_Handler_result)
  have differ: "ReqDump ud1 \<noteq> ReqDump ud2"
    unfolding r1 r2 by (rule sample_dumps_differ)
  let ?fs1 = "fst (WriteUniqueFile empty_fs (Checksum ud1) (ReqBody ud1) ''out'' (ReqDump ud1) ''req'')"
  have first: "files ?fs1 (filePath_of ''out'' (Checksum ud1) ''req'')
      = Some (constructed_of ''req'' (ReqDump ud1) (ReqBody ud1) @ ''\<newline>'')"
    by (rule WriteUniqueFile_fresh) simp_all
  then have first': "files ?fs1 (filePath_of ''out'' (Checksum ud1) ''req'') = Some (ReqDump ud1 @ '' foo=bar\<newline>'')"
    by (simp add: constructed_of_def r1(1))
  from noop [of ?fs1 "''req''"] first have second:
    "files (fst (WriteUniqueFile ?fs1 (Checksum ud2) (ReqBody ud2) ''out'' (ReqDump ud2) ''req'')) = files ?fs1"
    by simp
  let ?fs1' = "fst (WriteUniqueFile empty_fs (Checksum ud1) (ReqBody ud1) ''out'' ''HTTP/1.1 200 OK'' ''res'')"
  have res_first: "files ?fs1' (filePath_of ''out'' (Checksum ud1) ''res'')
      = Some (constructed_of ''res'' ''HTTP/1.1 200 OK'' (ReqBody ud1) @ ''\<newline>'')"
    by (rule WriteUniqueFile_fresh) simp_all
  from noop [of ?fs1' "''res''"] res_first have res_second:
    "files (fst (WriteUniqueFile ?fs1' (Checksum ud2) (ReqBody ud2) ''out'' ''HTTP/1.1 404 Not Found'' ''res'')) = files ?fs1'"
    by simp
  from u1 u2 differ ck first' second res_second show ?thesis by blast
qed

text \<open>
  The claim as stated makes the later write a no-op without condition. The writes are
  goroutines started with \<^verbatim>\<open>go\<close>, and nothing orders them. Take the two sample
  requests, which get the same identifier. When the write of the later transaction
  reaches a file system on which the file is still absent, it stores the payload of the
  later transaction, and the write of the earlier transaction that runs after it is the
  no-op, so that the earlier payload is never stored. And when both goroutines have made
  the directory and found the file absent before either appends, the two appends leave
  both payloads in the file.
\<close>

theorem later_write_stored_counterexample:
  "UserData (fst (snd (snd (PopulateUserdata_Handler (go_env silent_endpoint) sample_request fresh_ctx))))
     = IsUserData sample_userdata
   \<and> UserData (fst (snd (snd (PopulateUserdata_Handler (go_env silent_endpoint) sample_request' fresh_ctx))))
       = IsUserData sample_userdata'
   \<and> Checksum sample_userdata' = Checksum sample_userdata
   \<and> ReqDump sample_userdata' \<noteq> ReqDump sample_userdata
   \<and> files empty_fs (filePath_of ''out'' (Checksum sample_userdata) ''req'') = None
   \<and> files (fst (WriteUniqueFile empty_fs (Checksum sample_userdata') (ReqBody sample_userdata') ''out''
                   (ReqDump sample_userdata') ''req''))
        (filePath_of ''out'' (Checksum sample_userdata) ''req'')
       = Some (ReqDump sample_userdata' @ '' foo=bar\<newline>'')
   \<and> files (fst (WriteUniqueFile
                   (fst (WriteUniqueFile empty_fs (Checksum sample_userdata') (ReqBody sample_userdata') ''out''
                          (ReqDump sample_userdata') ''req''))
                   (Checksum sample_userdata) (ReqBody sample_userdata) ''out'' (ReqDump sample_userdata) ''req''))
        (filePath_of ''out'' (Checksum sample_userdata) ''req'')
       = Some (ReqDump sample_userdata' @ '' foo=bar\<newline>'')
   \<and> \<not> FileExists (fst (os_MkdirAll empty_fs ''out'')) (filePath_of ''out'' (Checksum sample_userdata) ''req'')
   \<and> files (fst (AppendToFile
                   (fst (AppendToFile (fst (os_MkdirAll empty_fs ''out''))
                          (constructed_of ''req'' (ReqDump sample_userdata) (ReqBody sample_userdata))
                          (filePath_of ''out'' (Checksum sample_userdata) ''req'')))
                   (constructed_of ''req'' (ReqDump sample_userdata') (ReqBody sample_userdata'))
                   (filePath_of ''out'' (Checksum sample_userdata') ''req'')))
        (filePath_of ''out'' (Checksum sample_userdata) ''req'')
       = Some (ReqDump sample_userdata @ '' foo=bar\<newline>'' @ ReqDump sample_userdata' @ '' foo=bar\<newline>'')"
proof -
  let ?E = "go_env silent_endpoint"
  let ?ck = "Correlate ''example.com'' ''/x'' ''foo=bar''"
  let ?p = "filePath_of ''out'' ?ck ''req''"
  let ?d = "ReqDump sample_userdata" and ?d' = "ReqDump sample_userdata'"
  have f [simp]: "Checksum sample_userdata = ?ck" "Checksum sample_userdata' = ?ck"
    "ReqBody sample_userdata = ''foo=bar''" "ReqBody sample_userdata' = ''foo=bar''"
    by (simp_all add: sample_userdata_def sample_userdata'_def)
  have u1: "UserData (fst (snd (snd (PopulateUserdata_Handler ?E sample_request fresh_ctx)))) = IsUserData sample_userdata"
    by (simp add: PopulateUserdata_Handler_result sample_userdata_def)
  have u2: "UserData (fst (snd (snd (PopulateUserdata_Handler ?E sample_request' fresh_ctx)))) = IsUserData sample_userdata'"
    by (simp add: PopulateUserdata_Handler_result sample_userdata'_def)
  have differ: "?d' \<noteq> ?d"
    using sample_dumps_differ [of "(Body sample_request)\<lparr>unread := []\<rparr>" "(Body sample_request')\<lparr>unread := []\<rparr>"]
    by (simp add: sample_userdata_def sample_userdata'_def)
  have absent: "files empty_fs ?p = None" by simp
  let ?fs2 = "fst (WriteUniqueFile empty_fs ?ck ''foo=bar'' ''out'' ?d' ''req'')"
  have "files ?fs2 ?p = Some (constructed_of ''req'' ?d' ''foo=bar'' @ ''\<newline>'')"
    by (rule WriteUniqueFile_fresh) simp_all
  then have later: "files ?fs2 ?p = Some (?d' @ '' foo=bar\<newline>'')"
    by (simp add: constructed_of_def)
  then have "files ?fs2 ?p \<noteq> None" by simp
  from WriteUniqueFile_existing(2) [OF this, of "''foo=bar''" ?d] later
  have earlier: "files (fst (WriteUniqueFile ?fs2 ?ck ''foo=bar'' ''out'' ?d ''req'')) ?p
      = Some (?d' @ '' foo=bar\<newline>'')"
    by simp
  let ?fsd = "fst (os_MkdirAll empty_fs ''out'')"
  have st: "os_Stat ?fsd ?p = ErrNotExist"
    by (simp add: os_Stat_MkdirAll filePath_of_neq_dir)
  then have unseen: "\<not> FileExists ?fsd ?p" by (simp add: FileExists_def)
  have nofile: "files ?fsd ?p = None" by simp
  have both: "files (fst (AppendToFile (fst (AppendToFile ?fsd (constructed_of ''req'' ?d ''foo=bar'') ?p))
                   (constructed_of ''req'' ?d' ''foo=bar'') ?p)) ?p
       = Some (?d @ '' foo=bar\<newline>'' @ ?d' @ '' foo=bar\<newline>'')"
    using nofile
    by (simp add: AppendToFile_def Let_def filePath_of_nonempty constructed_of_def)
  from u1 u2 differ absent later earlier unseen both show ?thesis by simp
qed

subsection \<open>The notification\<close>

lemma NewRequest_hook:
  "go_http_NewRequest ''POST'' ''http://hook.test/x'' body
     = Inr \<lparr>Header = [], Body = body, Method = ''POST'', URL = parse_url ''http://hook.test/x''\<rparr>"
  by (simp add: go_http_NewRequest_def is_ctl_def)

lemma NewRequest_ctl:
  "go_http_NewRequest ''POST'' (''http://hook.test/'' @ [CHR 0x0A]) body
     = Inl ''net/url: invalid control character in URL''"
  by (simp add: go_http_NewRequest_def is_ctl_def)

text \<open>
  Claim C4, as the code has it. \<^verbatim>\<open>SendSlackNotification\<close> returns no error exactly when
  the request can be built, the POST gives a response, and the bytes read from the body
  of the response are the two bytes \<^verbatim>\<open>ok\<close>; the status code of the response plays no
  part. It returns the error of \<^verbatim>\<open>http.NewRequest\<close>, the error of the POST (no
  connection, a timeout), and for every other body the error
  \<^verbatim>\<open>Non-ok response returned from Slack\<close>.
\<close>

theorem SendSlackNotification_classification:
  "(SendSlackNotification E webhookUrl msg = None \<longleftrightarrow>
      (\<exists>req resp.
          http_NewRequest E ''POST'' webhookUrl (bytes_NewBuffer (json_Marshal_text E msg)) = Inr req
        \<and> client_Do E 10 (req\<lparr>Header := Header_Add (Header req) ''Content-Type'' ''application/json''\<rparr>) = Inr resp
        \<and> unread (Body resp) = ''ok''))
   \<and> (\<forall>err. http_NewRequest E ''POST'' webhookUrl (bytes_NewBuffer (json_Marshal_text E msg)) = Inl err
          \<longrightarrow> SendSlackNotification E webhookUrl msg = Some err)
   \<and> (\<forall>req err.
          http_NewRequest E ''POST'' webhookUrl (bytes_NewBuffer (json_Marshal_text E msg)) = Inr req
        \<and> client_Do E 10 (req\<lparr>Header := Header_Add (Header req) ''Content-Type'' ''application/json''\<rparr>) = Inl err
          \<longrightarrow> SendSlackNotification E webhookUrl msg = Some err)
   \<and> (\<forall>req resp.
          http_NewRequest E ''POST'' webhookUrl (bytes_NewBuffer (json_Marshal_text E msg)) = Inr req
        \<and> client_Do E 10 (req\<lparr>Header := Header_Add (Header req) ''Content-Type'' ''application/json''\<rparr>) = Inr resp
        \<and> unread (Body resp) \<noteq> ''ok''
          \<longrightarrow> SendSlackNotification E webhookUrl msg = Some ''Non-ok response returned from Slack'')"
  by (auto simp: SendSlackNotification_def Let_def ioutil_ReadAll_def split: sum.splits)

theorem SendSlackNotification_classification_witness:
  "SendSlackNotification (go_env (mock_endpoint 200 ''ok'')) ''http://hook.test/x'' ''IDOR'' = None
   \<and> SendSlackNotification (go_env (mock_endpoint 200 ''error'')) ''http://hook.test/x'' ''IDOR''
       = Some ''Non-ok response returned from Slack''
   \<and> SendSlackNotification (go_env silent_endpoint) ''http://hook.test/x'' ''IDOR''
       = Some ''context deadline exceeded (Client.Timeout exceeded while awaiting headers)''
   \<and> SendSlackNotification (go_env (mock_endpoint 200 ''ok'')) (''http://hook.test/'' @ [CHR 0x0A]) ''IDOR''
       = Some ''net/url: invalid control character in URL''"
proof -
  have ok: "SendSlackNotification (go_env (mock_endpoint 200 ''ok'')) ''http://hook.test/x'' ''IDOR'' = None"
    using SendSlackNotification_classification [of "go_env (mock_endpoint 200 ''ok'')" "''http://hook.test/x''" "''IDOR''"]
    by (simp add: NewRequest_hook mock_endpoint_def bytes_NewBuffer_def)
  have other: "SendSlackNotification (go_env (mock_endpoint 200 ''error'')) ''http://hook.test/x'' ''IDOR''
       = Some ''Non-ok response returned from Slack''"
    using SendSlackNotification_classification [of "go_env (mock_endpoint 200 ''error'')" "''http://hook.test/x''" "''IDOR''"]
    by (simp add: NewRequest_hook mock_endpoint_def bytes_NewBuffer_def)
  have timeout: "SendSlackNotification (go_env silent_endpoint) ''http://hook.test/x'' ''IDOR''
       = Some ''context deadline exceeded (Client.Timeout exceeded while awaiting headers)''"
    using SendSlackNotification_classification [of "go_env silent_endpoint" "''http://hook.test/x''" "''IDOR''"]
    by (simp add: NewRequest_hook silent_endpoint_def)
  have bad: "SendSlackNotification (go_env (mock_endpoint 200 ''ok'')) (''http://hook.test/'' @ [CHR 0x0A]) ''IDOR''
       = Some ''net/url: invalid control character in URL''"
    using SendSlackNotification_classification [of "go_env (mock_endpoint 200 ''ok'')" "''http://hook.test/'' @ [CHR 0x0A]" "''IDOR''"]
    by (simp only: go_env_simps NewRequest_ctl)
  from ok other timeout bad show ?thesis by simp
qed

text \<open>
  The claim as stated also promises an error for every status outside 2xx. An endpoint
  that answers with status 500 and the body \<^verbatim>\<open>ok\<close> is reported as a success.
\<close>

theorem SendSlackNotification_status_counterexample:
  "mock_endpoint 500 ''ok'' 10 sample_request
     = Inr \<lparr>Header = [], Body = bytes_NewBuffer ''ok'', StatusCode = 500\<rparr>
   \<and> SendSlackNotification (go_env (mock_endpoint 500 ''ok'')) ''http://hook.test/x'' ''IDOR'' = None"
  by (simp add: SendSlackNotification_def go_http_NewRequest_def is_ctl_def mock_endpoint_def
      ioutil_ReadAll_def bytes_NewBuffer_def)

subsection \<open>The detectors\<close>

text \<open>
  \<^const>\<open>strings_Contains\<close> is substring containment, and a loop over a map emits one
  message for each key that passes its test.
\<close>

lemma strings_HasPrefix_iff: "strings_HasPrefix s p \<longleftrightarrow> (\<exists>v. s = p @ v)"
  by (induction s p rule: strings_HasPrefix.induct) auto

lemma strings_Contains_iff: "strings_Contains s sub \<longleftrightarrow> (\<exists>u v. s = u @ sub @ v)"
proof (induction s)
  case Nil
  then show ?case by auto
next
  case (Cons c cs)
  show ?case
  proof
    assume "strings_Contains (c # cs) sub"
    then consider "strings_HasPrefix (c # cs) sub" | "strings_Contains cs sub" by auto
    then show "\<exists>u v. c # cs = u @ sub @ v"
    proof cases
      case 1
      then obtain v where "c # cs = sub @ v" by (auto simp: strings_HasPrefix_iff)
      then have "c # cs = [] @ sub @ v" by simp
      then show ?thesis by blast
    next
      case 2
      with Cons obtain u v where "cs = u @ sub @ v" by auto
      then have "c # cs = (c # u) @ sub @ v" by simp
      then show ?thesis by blast
    qed
  next
    assume "\<exists>u v. c # cs = u @ sub @ v"
    then obtain u v where uv: "c # cs = u @ sub @ v" by blast
    show "strings_Contains (c # cs) sub"
    proof (cases u)
      case Nil
      with uv have "strings_HasPrefix (c # cs) sub" by (auto simp: strings_HasPrefix_iff)
      then show ?thesis by simp
    next
      case (Cons a u')
      with uv have "cs = u' @ sub @ v" by simp
      with Cons.IH have "strings_Contains cs sub" by blast
      then show ?thesis by simp
    qed
  qed
qed

lemma count_range_keys: "count (range_keys m) k = (if k \<in> fst ` set m then 1 else 0)"
  unfolding range_keys_def
  by (metis count_mset distinct_remdups distinct_count_atmost_1 set_remdups set_map)

lemma count_image_mset_inj': "inj f \<Longrightarrow> count (image_mset f M) (f x) = count M x"
  by (induction M) (auto dest: injD)

lemma count_alerts:
  assumes "inj f"
  shows "count (image_mset f (filter_mset P (range_keys m))) (f k)
         = (if k \<in> fst ` set m \<and> P k then 1 else 0)"
  using assms by (simp add: count_image_mset_inj' count_range_keys)

lemma count_fold_plus:
  "count (fold (\<lambda>w sent. sent + g w) ws acc) x = count acc x + (\<Sum>w\<leftarrow>ws. count (g w) x)"
  by (induction ws arbitrary: acc) simp_all

lemma sum_list_indicator: "(\<Sum>w\<leftarrow>ws. if P w then 1 else 0) = length (filter P ws)"
  by (induction ws) simp_all

lemma not_in_image_inj: "\<forall>k. x \<noteq> f k \<Longrightarrow> count (image_mset f M) x = 0"
  by (induction M) auto


lemma set_range_keys: "set_mset (range_keys m) = fst ` set m"
  by (simp add: range_keys_def)

lemma size_alerts:
  "size (image_mset f (filter_mset P (range_keys m))) = length (filter P (remdups (map fst m)))"
  by (simp add: range_keys_def flip: mset_filter)

lemma size_fold_plus:
  "size (fold (\<lambda>w sent. sent + g w) ws (acc :: 'b multiset)) = size acc + (\<Sum>w\<leftarrow>ws. size (g w))"
  by (induction ws arbitrary: acc) simp_all

lemma in_fold_plus:
  "x \<in># fold (\<lambda>w sent. sent + g w) ws acc \<longleftrightarrow> x \<in># acc \<or> (\<exists>w. w \<in> set ws \<and> x \<in># g w)"
  by (induction ws arbitrary: acc) auto

lemma all_one_kind:
  assumes "count M x = size M"
  shows "M = replicate_mset (size M) x"
  using assms
proof (induction M)
  case empty
  then show ?case by simp
next
  case (add y M)
  show ?case
  proof (cases "y = x")
    case True
    with add show ?thesis by simp
  next
    case False
    with add.prems have "count M x = Suc (size M)" by simp
    moreover have "count M x \<le> size M" by (rule count_le_size)
    ultimately show ?thesis by simp
  qed
qed

lemma sum_list_map_arg: "(\<Sum>w\<leftarrow>ws. g (f w)) = (\<Sum>w\<leftarrow>map f ws. g w)"
  by (simp add: comp_def)

lemma inj_json_slackMsg: "inj (\<lambda>k. json_slackMsg h k ck)"
  by (rule injI) (simp add: json_slackMsg_def)

lemma inj_query_slackMsg: "inj (\<lambda>k. query_slackMsg h k ck)"
  by (rule injI) (simp add: query_slackMsg_def)

lemma inj_idor_slackMsg: "inj (\<lambda>k. idor_slackMsg k ck)"
  by (rule injI) (simp add: idor_slackMsg_def)

text \<open>
  Claim C5, as the code has it. On an empty body \<^verbatim>\<open>DetectInJsonReqBody\<close> returns
  \<^verbatim>\<open>nil\<close> without decoding and prints nothing. On a body that is not empty and that
  \<^verbatim>\<open>json.Unmarshal\<close> rejects (no JSON at all, or a JSON value that is neither an
  object nor \<^verbatim>\<open>null\<close>) it prints nothing and returns the error of \<^verbatim>\<open>json.Unmarshal\<close>
  to its caller. A body that decodes to no entries gives neither an alert nor an error.
\<close>

theorem DetectInJsonReqBody_skips:
  "(ReqBody ud = [] \<longrightarrow> DetectInJsonReqBody E huntType jsonParam ud = (None, {#}))
   \<and> (ReqBody ud \<noteq> [] \<and> json_Unmarshal E (ReqBody ud) = Inl err
        \<longrightarrow> DetectInJsonReqBody E huntType jsonParam ud = (Some err, {#}))
   \<and> (json_Unmarshal E (ReqBody ud) = Inr []
        \<longrightarrow> DetectInJsonReqBody E huntType jsonParam ud = (None, {#}))"
  by (simp add: DetectInJsonReqBody_def range_keys_def)

theorem DetectInJsonReqBody_skips_witness:
  "DetectInJsonReqBody (go_env silent_endpoint) ''IDOR'' ''id'' (userdata_with_body []) = (None, {#})
   \<and> DetectInJsonReqBody (go_env silent_endpoint) ''IDOR'' ''id'' (userdata_with_body ''foo=bar'')
       = (Some ''json: syntax error'', {#})
   \<and> DetectInJsonReqBody (go_env silent_endpoint) ''IDOR'' ''id'' (userdata_with_body ''[1]'')
       = (Some ''json: cannot unmarshal into Go value of type map[string]interface {}'', {#})
   \<and> DetectInJsonReqBody (go_env silent_endpoint) ''IDOR'' ''id'' (userdata_with_body ''null'') = (None, {#})"
  using DetectInJsonReqBody_skips [of "userdata_with_body []" "go_env silent_endpoint" "''IDOR''" "''id''"]
    DetectInJsonReqBody_skips [of "userdata_with_body ''foo=bar''" "go_env silent_endpoint" "''IDOR''" "''id''"
       "''json: syntax error''"]
    DetectInJsonReqBody_skips [of "userdata_with_body ''[1]''" "go_env silent_endpoint" "''IDOR''" "''id''"
       "''json: cannot unmarshal into Go value of type map[string]interface {}''"]
    DetectInJsonReqBody_skips [of "userdata_with_body ''null''" "go_env silent_endpoint" "''IDOR''" "''id''"]
  by (simp add: Unmarshal_form Unmarshal_null Unmarshal_array)

text \<open>
  The claim as stated says that no error is signalled for a body that does not parse. For
  the form-encoded body \<^verbatim>\<open>foo=bar\<close> the detector returns the error of the decoder.
\<close>

theorem DetectInJsonReqBody_error_counterexample:
  "fst (DetectInJsonReqBody (go_env silent_endpoint) ''IDOR'' ''id'' (userdata_with_body ''foo=bar''))
     = Some ''json: syntax error''"
  by (simp add: DetectInJsonReqBody_def Unmarshal_form)

text \<open>
  Claim C8. When the body decodes to an object, \<^verbatim>\<open>DetectInJsonReqBody\<close> returns no error
  and prints, for each top-level key, exactly one message if the lower-cased key contains
  the lower-cased entry and none otherwise; every message printed names such a key. The
  test sees key and entry only in lower case, so every casing of the key fares the same.
  The witness is the body \<^verbatim>\<open>{"userId": 5, "note": "x"}\<close> with the entry \<^verbatim>\<open>id\<close>: one
  message for \<^verbatim>\<open>userId\<close>, none for \<^verbatim>\<open>note\<close>, and the same for the key \<^verbatim>\<open>USERID\<close> and
  for the entry \<^verbatim>\<open>Id\<close>.
\<close>

theorem DetectInJsonReqBody_matches:
  assumes "ReqBody ud \<noteq> []" and "json_Unmarshal E (ReqBody ud) = Inr bodyMap"
  shows "fst (DetectInJsonReqBody E huntType jsonParam ud) = None
       \<and> count (snd (DetectInJsonReqBody E huntType jsonParam ud)) (json_slackMsg huntType k (Checksum ud))
           = (if k \<in> fst ` set bodyMap
                 \<and> strings_Contains (strings_ToLower E k) (strings_ToLower E jsonParam)
              then 1 else 0)
       \<and> (\<forall>m. m \<in># snd (DetectInJsonReqBody E huntType jsonParam ud) \<longrightarrow>
              (\<exists>k'. k' \<in> fst ` set bodyMap
                  \<and> strings_Contains (strings_ToLower E k') (strings_ToLower E jsonParam)
                  \<and> m = json_slackMsg huntType k' (Checksum ud)))"
proof -
  let ?P = "\<lambda>bodyParam. strings_Contains (strings_ToLower E bodyParam) (strings_ToLower E jsonParam)"
  let ?f = "\<lambda>bodyParam. json_slackMsg huntType bodyParam (Checksum ud)"
  have eq: "DetectInJsonReqBody E huntType jsonParam ud
      = (None, image_mset ?f (filter_mset ?P (range_keys bodyMap)))"
    using assms by (simp add: DetectInJsonReqBody_def)
  have "count (image_mset ?f (filter_mset ?P (range_keys bodyMap))) (?f k)
      = (if k \<in> fst ` set bodyMap \<and> ?P k then 1 else 0)"
    by (rule count_alerts [OF inj_json_slackMsg])
  moreover have "\<forall>m. m \<in># image_mset ?f (filter_mset ?P (range_keys bodyMap)) \<longrightarrow>
      (\<exists>k'. k' \<in> fst ` set bodyMap \<and> ?P k' \<and> m = ?f k')"
    by (auto simp: range_keys_def)
  ultimately show ?thesis unfolding eq by simp
qed

theorem DetectInJsonReqBody_matches_witness:
  "count (snd (DetectInJsonReqBody (go_env silent_endpoint) ''IDOR'' ''id''
                 (userdata_with_body ''{\"userId\": 5, \"note\": \"x\"}'')))
         (json_slackMsg ''IDOR'' ''userId'' ''abc123'') = 1
   \<and> count (snd (DetectInJsonReqBody (go_env silent_endpoint) ''IDOR'' ''id''
                 (userdata_with_body ''{\"userId\": 5, \"note\": \"x\"}'')))
         (json_slackMsg ''IDOR'' ''note'' ''abc123'') = 0
   \<and> count (snd (DetectInJsonReqBody (go_env silent_endpoint) ''IDOR'' ''id''
                 (userdata_with_body ''{\"USERID\": 5, \"note\": \"x\"}'')))
         (json_slackMsg ''IDOR'' ''USERID'' ''abc123'') = 1
   \<and> count (snd (DetectInJsonReqBody (go_env silent_endpoint) ''IDOR'' ''Id''
                 (userdata_with_body ''{\"userId\": 5, \"note\": \"x\"}'')))
         (json_slackMsg ''IDOR'' ''userId'' ''abc123'') = 1"
proof -
  let ?E = "go_env silent_endpoint"
  let ?b = "''{\"userId\": 5, \"note\": \"x\"}''"
  let ?B = "''{\"USERID\": 5, \"note\": \"x\"}''"
  have ne: "ReqBody (userdata_with_body ?b) \<noteq> []" "ReqBody (userdata_with_body ?B) \<noteq> []" by simp_all
  have u: "json_Unmarshal ?E (ReqBody (userdata_with_body ?b)) = Inr [(''userId'', JNumber ''5''), (''note'', JString ''x'')]"
    by (simp add: Unmarshal_userId)
  have U: "json_Unmarshal ?E (ReqBody (userdata_with_body ?B)) = Inr [(''USERID'', JNumber ''5''), (''note'', JString ''x'')]"
    by (simp add: Unmarshal_USERID)
  from DetectInJsonReqBody_matches [OF ne(1) u, of "''IDOR''" "''id''" "''userId''"]
  have a: "count (snd (DetectInJsonReqBody ?E ''IDOR'' ''id'' (userdata_with_body ?b)))
         (json_slackMsg ''IDOR'' ''userId'' ''abc123'') = 1"
    by (simp add: lower_eval)
  from DetectInJsonReqBody_matches [OF ne(1) u, of "''IDOR''" "''id''" "''note''"]
  have b: "count (snd (DetectInJsonReqBody ?E ''IDOR'' ''id'' (userdata_with_body ?b)))
         (json_slackMsg ''IDOR'' ''note'' ''abc123'') = 0"
    by (simp add: lower_eval)
  from DetectInJsonReqBody_matches [OF ne(2) U, of "''IDOR''" "''id''" "''USERID''"]
  have c: "count (snd (DetectInJsonReqBody ?E ''IDOR'' ''id'' (userdata_with_body ?B)))
         (json_slackMsg ''IDOR'' ''USERID'' ''abc123'') = 1"
    by (simp add: lower_eval)
  from DetectInJsonReqBody_matches [OF ne(1) u, of "''IDOR''" "''Id''" "''userId''"]
  have d: "count (snd (DetectInJsonReqBody ?E ''IDOR'' ''Id'' (userdata_with_body ?b)))
         (json_slackMsg ''IDOR'' ''userId'' ''abc123'') = 1"
    by (simp add: lower_eval)
  from a b c d show ?thesis by simp
qed

text \<open>
  Claim C7. The query detectors emit one alert for each pair of a query-parameter name
  and a watchlist entry such that the lower-cased name contains the lower-cased entry,
  and merge nothing. \<^verbatim>\<open>DetectInReqQueryParam\<close>, which has one entry, prints one message
  for a name that matches it and none for any other; every message it prints is the
  message of a matching name, and their number is the number of matching names. The
  handler of \<^verbatim>\<open>DetectIDOR\<close> dispatches for each name as many messages as entries of its
  list match that name; every message it dispatches is the message of a name and an
  entry of the list that match, and their number is the number of matching pairs. The
  witness is the query string \<^verbatim>\<open>?user_id=5&color=red\<close>: against the entry \<^verbatim>\<open>id\<close>
  the output is exactly one alert, for \<^verbatim>\<open>user_id\<close>, and none for \<^verbatim>\<open>color\<close>; against
  the list of \<^verbatim>\<open>DetectIDOR\<close>, in which \<^verbatim>\<open>id\<close> and \<^verbatim>\<open>user\<close> match \<^verbatim>\<open>user_id\<close>, the
  output is exactly two alerts, both for \<^verbatim>\<open>user_id\<close>, and none for \<^verbatim>\<open>color\<close>.
\<close>

theorem query_detectors_alert_per_pair:
  "count (DetectInReqQueryParam E huntType req jsonParam ud) (query_slackMsg huntType q (Checksum ud))
     = (if q \<in> fst ` set (URL_Query E (URL req))
           \<and> strings_Contains (strings_ToLower E q) (strings_ToLower E jsonParam)
        then 1 else 0)
   \<and> (\<forall>m. m \<in># DetectInReqQueryParam E huntType req jsonParam ud \<longrightarrow>
          (\<exists>q'. q' \<in> fst ` set (URL_Query E (URL req))
              \<and> strings_Contains (strings_ToLower E q') (strings_ToLower E jsonParam)
              \<and> m = query_slackMsg huntType q' (Checksum ud)))
   \<and> size (DetectInReqQueryParam E huntType req jsonParam ud)
       = length (filter (\<lambda>q'. strings_Contains (strings_ToLower E q') (strings_ToLower E jsonParam))
                   (remdups (map fst (URL_Query E (URL req)))))
   \<and> (UserData ctx = IsUserData ud \<longrightarrow>
        (\<exists>sent. DetectIDOR_Handler E req ctx = Inr (req, None, sent)
           \<and> count sent (idor_slackMsg q (Checksum ud))
               = (if q \<in> fst ` set (URL_Query E (URL req))
                  then length (filter (\<lambda>idorParam. strings_Contains (strings_ToLower E q)
                                                      (strings_ToLower E idorParam)) idorParams)
                  else 0)
           \<and> (\<forall>m. m \<in># sent \<longrightarrow>
                  (\<exists>q' idorParam. q' \<in> fst ` set (URL_Query E (URL req))
                      \<and> idorParam \<in> set idorParams
                      \<and> strings_Contains (strings_ToLower E q') (strings_ToLower E idorParam)
                      \<and> m = idor_slackMsg q' (Checksum ud)))
           \<and> size sent
               = (\<Sum>idorParam\<leftarrow>idorParams.
                    length (filter (\<lambda>q'. strings_Contains (strings_ToLower E q') (strings_ToLower E idorParam))
                              (remdups (map fst (URL_Query E (URL req))))))))"
proof -
  let ?m = "URL_Query E (URL req)"
  let ?ck = "Checksum ud"
  let ?P = "\<lambda>w q'. strings_Contains (strings_ToLower E q') (strings_ToLower E w)"
  have def1: "DetectInReqQueryParam E huntType req jsonParam ud
      = image_mset (\<lambda>queryParam. query_slackMsg huntType queryParam ?ck)
          (filter_mset (?P jsonParam) (range_keys ?m))"
    by (simp add: DetectInReqQueryParam_def Let_def)
  have one: "count (DetectInReqQueryParam E huntType req jsonParam ud) (query_slackMsg huntType q ?ck)
     = (if q \<in> fst ` set ?m \<and> ?P jsonParam q then 1 else 0)"
    unfolding def1 by (rule count_alerts [OF inj_query_slackMsg])
  have one_mem: "\<forall>m. m \<in># DetectInReqQueryParam E huntType req jsonParam ud \<longrightarrow>
          (\<exists>q'. q' \<in> fst ` set ?m \<and> ?P jsonParam q' \<and> m = query_slackMsg huntType q' ?ck)"
    unfolding def1 by (auto simp: set_range_keys)
  have one_size: "size (DetectInReqQueryParam E huntType req jsonParam ud)
       = length (filter (?P jsonParam) (remdups (map fst ?m)))"
    unfolding def1 by (rule size_alerts)
  let ?g = "\<lambda>idorParam. image_mset (\<lambda>queryParam. idor_slackMsg queryParam ?ck)
              (filter_mset (?P idorParam) (range_keys ?m))"
  let ?sent = "fold (\<lambda>idorParam sent. sent + ?g idorParam) idorParams {#}"
  have each: "count (?g w) (idor_slackMsg q ?ck)
      = (if q \<in> fst ` set ?m \<and> ?P w q then 1 else 0)" for w
    by (rule count_alerts [OF inj_idor_slackMsg])
  have "count ?sent (idor_slackMsg q ?ck)
      = (\<Sum>w\<leftarrow>idorParams. if q \<in> fst ` set ?m \<and> ?P w q then 1 else 0)"
    by (simp add: count_fold_plus each)
  also have "\<dots> = (if q \<in> fst ` set ?m then length (filter (\<lambda>w. ?P w q) idorParams) else 0)"
    by (simp add: sum_list_indicator)
  finally have cnt: "count ?sent (idor_slackMsg q ?ck)
      = (if q \<in> fst ` set ?m then length (filter (\<lambda>w. ?P w q) idorParams) else 0)" .
  have mem: "\<forall>m. m \<in># ?sent \<longrightarrow>
      (\<exists>q' idorParam. q' \<in> fst ` set ?m \<and> idorParam \<in> set idorParams \<and> ?P idorParam q'
          \<and> m = idor_slackMsg q' ?ck)"
    by (auto simp: in_fold_plus set_range_keys)
  have "size ?sent = (\<Sum>w\<leftarrow>idorParams. size (?g w))"
    by (simp add: size_fold_plus)
  also have "\<dots> = (\<Sum>w\<leftarrow>idorParams. length (filter (?P w) (remdups (map fst ?m))))"
    by (simp only: size_alerts)
  finally have sz: "size ?sent = (\<Sum>w\<leftarrow>idorParams. length (filter (?P w) (remdups (map fst ?m))))" .
  have two: "UserData ctx = IsUserData ud \<longrightarrow>
        (\<exists>sent. DetectIDOR_Handler E req ctx = Inr (req, None, sent)
           \<and> count sent (idor_slackMsg q ?ck)
               = (if q \<in> fst ` set ?m then length (filter (\<lambda>w. ?P w q) idorParams) else 0)
           \<and> (\<forall>m. m \<in># sent \<longrightarrow>
                  (\<exists>q' idorParam. q' \<in> fst ` set ?m \<and> idorParam \<in> set idorParams \<and> ?P idorParam q'
                      \<and> m = idor_slackMsg q' ?ck))
           \<and> size sent = (\<Sum>w\<leftarrow>idorParams. length (filter (?P w) (remdups (map fst ?m)))))"
  proof
    assume "UserData ctx = IsUserData ud"
    then have "DetectIDOR_Handler E req ctx = Inr (req, None, ?sent)"
      by (simp add: DetectIDOR_Handler_def Let_def)
    with cnt mem sz show "\<exists>sent. DetectIDOR_Handler E req ctx = Inr (req, None, sent)
           \<and> count sent (idor_slackMsg q ?ck)
               = (if q \<in> fst ` set ?m then length (filter (\<lambda>w. ?P w q) idorParams) else 0)
           \<and> (\<forall>m. m \<in># sent \<longrightarrow>
                  (\<exists>q' idorParam. q' \<in> fst ` set ?m \<and> idorParam \<in> set idorParams \<and> ?P idorParam q'
                      \<and> m = idor_slackMsg q' ?ck))
           \<and> size sent = (\<Sum>w\<leftarrow>idorParams. length (filter (?P w) (remdups (map fst ?m))))"
      by blast
  qed
  from one one_mem one_size two show ?thesis by blast
qed

theorem query_detectors_alert_per_pair_witness:
  "DetectInReqQueryParam (go_env silent_endpoint) ''IDOR'' sample_request ''id'' (userdata_with_body ''foo=bar'')
     = {#query_slackMsg ''IDOR'' ''user_id'' ''abc123''#}
   \<and> count (DetectInReqQueryParam (go_env silent_endpoint) ''IDOR'' sample_request ''id'' (userdata_with_body ''foo=bar''))
         (query_slackMsg ''IDOR'' ''user_id'' ''abc123'') = 1
   \<and> count (DetectInReqQueryParam (go_env silent_endpoint) ''IDOR'' sample_request ''id'' (userdata_with_body ''foo=bar''))
         (query_slackMsg ''IDOR'' ''color'' ''abc123'') = 0
   \<and> size (DetectInReqQueryParam (go_env silent_endpoint) ''IDOR'' sample_request ''id'' (userdata_with_body ''foo=bar''))
       = 1
   \<and> (\<exists>sent. DetectIDOR_Handler (go_env silent_endpoint) sample_request
                  \<lparr>UserData = IsUserData (userdata_with_body ''foo=bar'')\<rparr>
                = Inr (sample_request, None, sent)
          \<and> sent = {#idor_slackMsg ''user_id'' ''abc123'', idor_slackMsg ''user_id'' ''abc123''#}
          \<and> count sent (idor_slackMsg ''user_id'' ''abc123'') = 2
          \<and> count sent (idor_slackMsg ''color'' ''abc123'') = 0
          \<and> size sent = 2)"
proof -
  let ?E = "go_env silent_endpoint"
  let ?ud = "userdata_with_body ''foo=bar''"
  let ?ctx = "\<lparr>UserData = IsUserData ?ud\<rparr>"
  let ?D = "DetectInReqQueryParam ?E ''IDOR'' sample_request ''id'' ?ud"
  have ctx: "UserData ?ctx = IsUserData ?ud" by simp
  have keys: "remdups (map fst (go_URL_Query (URL sample_request))) = [''user_id'', ''color'']"
    by (simp add: Query_sample)
  have id: "ascii_ToLower ''id'' = ''id''" by (simp add: lower_eval)
  note user = query_detectors_alert_per_pair [of ?E "''IDOR''" sample_request "''id''" ?ud "''user_id''" ?ctx]
  note color = query_detectors_alert_per_pair [of ?E "''IDOR''" sample_request "''id''" ?ud "''color''" ?ctx]
  from user have a: "count ?D (query_slackMsg ''IDOR'' ''user_id'' ''abc123'') = 1"
    by (simp add: Query_sample ToLower_user_id id)
  from color have b: "count ?D (query_slackMsg ''IDOR'' ''color'' ''abc123'') = 0"
    by (simp add: Query_sample ToLower_color id)
  from user have "size ?D
      = length (filter (\<lambda>q'. strings_Contains (ascii_ToLower q') (ascii_ToLower ''id''))
                  (remdups (map fst (go_URL_Query (URL sample_request)))))"
    by simp
  then have sz: "size ?D = 1"
    unfolding keys by (simp add: ToLower_user_id ToLower_color id)
  from a sz have "count ?D (query_slackMsg ''IDOR'' ''user_id'' ''abc123'') = size ?D" by simp
  from all_one_kind [OF this] sz
  have all: "?D = {#query_slackMsg ''IDOR'' ''user_id'' ''abc123''#}" by simp
  from user ctx obtain sent where s: "DetectIDOR_Handler ?E sample_request ?ctx = Inr (sample_request, None, sent)"
    and c: "count sent (idor_slackMsg ''user_id'' ''abc123'')
        = length (filter (\<lambda>idorParam. strings_Contains (ascii_ToLower ''user_id'') (ascii_ToLower idorParam)) idorParams)"
    and t: "size sent
        = (\<Sum>idorParam\<leftarrow>idorParams.
             length (filter (\<lambda>q'. strings_Contains (ascii_ToLower q') (ascii_ToLower idorParam))
                       (remdups (map fst (go_URL_Query (URL sample_request))))))"
    by (auto simp: Query_sample)
  from color ctx obtain sent' where s': "DetectIDOR_Handler ?E sample_request ?ctx = Inr (sample_request, None, sent')"
    and c': "count sent' (idor_slackMsg ''color'' ''abc123'')
        = length (filter (\<lambda>idorParam. strings_Contains (ascii_ToLower ''color'') (ascii_ToLower idorParam)) idorParams)"
    by (auto simp: Query_sample)
  from s s' have same: "sent' = sent" by simp
  have two: "length (filter (\<lambda>idorParam. strings_Contains (ascii_ToLower ''user_id'') (ascii_ToLower idorParam)) idorParams) = 2"
    unfolding count_idorParams [OF ToLower_user_id] by (simp add: idorParams_def)
  have none: "length (filter (\<lambda>idorParam. strings_Contains (ascii_ToLower ''color'') (ascii_ToLower idorParam)) idorParams) = 0"
    unfolding count_idorParams [OF ToLower_color] by (simp add: idorParams_def)
  have "(\<Sum>idorParam\<leftarrow>idorParams.
             length (filter (\<lambda>q'. strings_Contains (ascii_ToLower q') (ascii_ToLower idorParam))
                       [''user_id'', ''color'']))
      = (\<Sum>w\<leftarrow>map ascii_ToLower idorParams.
             length (filter (\<lambda>q'. strings_Contains (ascii_ToLower q') w) [''user_id'', ''color'']))"
    by (rule sum_list_map_arg)
  also have "\<dots> = 2"
    unfolding ToLower_idorParams by (simp add: idorParams_def ToLower_user_id ToLower_color)
  finally have total: "size sent = 2" using t unfolding keys by simp
  from c two total have "count sent (idor_slackMsg ''user_id'' ''abc123'') = size sent" by simp
  from all_one_kind [OF this] total
  have both: "sent = {#idor_slackMsg ''user_id'' ''abc123'', idor_slackMsg ''user_id'' ''abc123''#}"
    by (simp add: numeral_2_eq_2)
  from s both c c' same two none total
  have "DetectIDOR_Handler ?E sample_request ?ctx = Inr (sample_request, None, sent)
          \<and> sent = {#idor_slackMsg ''user_id'' ''abc123'', idor_slackMsg ''user_id'' ''abc123''#}
          \<and> count sent (idor_slackMsg ''user_id'' ''abc123'') = 2
          \<and> count sent (idor_slackMsg ''color'' ''abc123'') = 0
          \<and> size sent = 2" by simp
  with all a b sz show ?thesis by blast
qed

subsection \<open>The filter conditions\<close>

lemma strings_Join_Cons:
  "strings_Join (l # ls) sep = l @ concat (map ((@) sep) ls)"
  by (induction ls arbitrary: l) simp_all

lemma ReadLines_urls: "ReadLines (go_env net) urls_fs ''urls.txt'' = ([''/api/.*'', ''/health''], None)"
  by (simp add: ReadLines_def urls_fs_def empty_fs_def go_env_def go_bufio_ScanLines_def drop_cr_def)

lemma pattern_urls: "urls_pattern [''/api/.*'', ''/health''] = ''(/api/.*)|(/health)''"
  by (simp add: urls_pattern_def)

lemma parse_urls: "re_parse False NoItem [empty_frame] ''(/api/.*)|(/health)'' = Inr api_or_health"
  by (simp add: empty_frame_def push_item_def close_frame_def concat_items_def repeat_item_def
      alt_def seq_def api_or_health_def)


lemma Compile_urls: "go_regexp_Compile ''(/api/.*)|(/health)'' = Inr (match_anywhere api_or_health)"
  unfolding go_regexp_Compile_def parse_urls by simp

lemmas re_eval = api_or_health_def alt_def seq_def

lemma match_api_users: "match_anywhere api_or_health ''/api/users''"
  by (simp add: re_eval)

lemma no_match_other: "\<not> match_anywhere api_or_health ''/other''"
  by (simp add: re_eval)

lemma no_match_host_other: "\<not> match_anywhere api_or_health ''example.com/other''"
  by (simp add: re_eval)


lemma request_to_fields [simp]:
  "Path (URL (request_to path)) = path" "Host (URL (request_to path)) = ''example.com''"
  by (simp_all add: request_to_def sample_request_def)

text \<open>
  Claim C6. The pattern of a filter is \<^verbatim>\<open>(LINE1)|(LINE2)|...\<close>: the lines of the URL
  list as they are, nothing escaped, each between parentheses, joined by \<^verbatim>\<open>|\<close>. When
  the list can be read and the pattern compiles, the filter has one condition, and a
  request is in scope exactly when the compiled pattern matches what
  \<^verbatim>\<open>goproxy.UrlMatches\<close> tests of its URL: the path, or the host followed by the path.
  The witness is the list \<^verbatim>\<open>/api/.*\<close>, \<^verbatim>\<open>/health\<close>: a request to
  \<^verbatim>\<open>/api/users\<close> is in scope, a request to \<^verbatim>\<open>/other\<close> is not.
\<close>

theorem filter_in_scope:
  assumes "ReadLines E fs (URLFile f) = (urlsList, None)"
    and "regexp_Compile E (urls_pattern urlsList) = Inr re"
  shows "urls_pattern urlsList
           = ''('' @ (case urlsList of [] \<Rightarrow> [] | l # ls \<Rightarrow> l @ concat (map ((@) '')|('') ls)) @ '')''
       \<and> (\<exists>c. filter_Conditions E fs f = Inr [c]
              \<and> (\<forall>req. c req \<longleftrightarrow> re (Path (URL req)) \<or> re (Host (URL req) @ Path (URL req))))"
proof -
  have "urls_pattern urlsList
           = ''('' @ (case urlsList of [] \<Rightarrow> [] | l # ls \<Rightarrow> l @ concat (map ((@) '')|('') ls)) @ '')''"
    by (cases urlsList) (simp_all add: urls_pattern_def strings_Join_Cons)
  moreover have "filter_Conditions E fs f = Inr [goproxy_UrlMatches re]"
    using assms by (simp add: filter_Conditions_def)
  moreover have "\<forall>req. goproxy_UrlMatches re req \<longleftrightarrow> re (Path (URL req)) \<or> re (Host (URL req) @ Path (URL req))"
    by (simp add: goproxy_UrlMatches_def)
  ultimately show ?thesis by blast
qed

theorem filter_in_scope_witness:
  "urls_pattern [''/api/.*'', ''/health''] = ''(/api/.*)|(/health)''
   \<and> (\<exists>c. filter_Conditions (go_env silent_endpoint) urls_fs sample_flags = Inr [c]
          \<and> c (request_to ''/api/users'') \<and> \<not> c (request_to ''/other''))"
proof -
  let ?E = "go_env silent_endpoint"
  have lines: "ReadLines ?E urls_fs (URLFile sample_flags) = ([''/api/.*'', ''/health''], None)"
    by (simp add: sample_flags_def ReadLines_urls)
  have re: "regexp_Compile ?E (urls_pattern [''/api/.*'', ''/health'']) = Inr (match_anywhere api_or_health)"
    unfolding pattern_urls by (simp add: Compile_urls)
  from filter_in_scope [OF lines re]
  obtain c where c: "filter_Conditions ?E urls_fs sample_flags = Inr [c]"
    and scope: "\<And>req. c req \<longleftrightarrow> match_anywhere api_or_health (Path (URL req))
                  \<or> match_anywhere api_or_health (Host (URL req) @ Path (URL req))"
    by blast
  from scope [of "request_to ''/api/users''"] match_api_users
  have yes: "c (request_to ''/api/users'')" by simp
  from scope [of "request_to ''/other''"] no_match_other no_match_host_other
  have no: "\<not> c (request_to ''/other'')" by simp
  from c yes no pattern_urls show ?thesis by blast
qed

end
